theory Spec2Isabelle
  imports Main
begin

section \<open>The record store\<close>

text \<open>
  The backend (functions/index.js, version 3.1.0) keeps all of its state in Firestore
  collections. The model holds the collections the session and command arbitration code
  reads and writes: customers, sessions, incidents, commandRequests and incidentLog.
  A collection is an association list from document ids to documents, in the order in
  which the store returns the documents of a query. Document ids, user ids and customer
  ids are non-empty strings in the source; they are natural numbers here, and a request
  parameter that is missing or empty (the source tests \<^verbatim>\<open>!sessionId\<close>) is \<open>None\<close>.
  Timestamps are milliseconds as integers. \<^verbatim>\<open>collection.add\<close> draws the new document
  id from the counter \<open>nextId\<close>, so an id is never handed out twice. The store refuses
  a query whose \<^verbatim>\<open>in\<close> filter lists more than 30 values; no bound on the size of a
  batch is modelled. Every call runs alone.
\<close>

type_synonym docid = nat
type_synonym timestamp = int

datatype error =
    InvalidArgument | PermissionDenied | NotFound | FailedPrecondition | AlreadyExists
  | PlainError

datatype incidentStatus = Active | Closed

datatype requestStatus = Pending | Approved | Denied

datatype eventType =
  COMMAND_REQUEST | COMMAND_APPROVED | COMMAND_DENIED | COMMAND_REESTABLISHED

record authContext =
  auth_uid :: nat
  auth_customerId :: nat

record customer =
  maxTotalSessions :: "nat option"
  maxCommandLicenses :: "nat option"

record session =
  sess_uid :: nat
  sess_customerId :: nat
  loginTime :: timestamp
  lastActive :: timestamp

record incident =
  inc_customerId :: nat
  inc_status :: incidentStatus
  startTime :: timestamp
  endTime :: "timestamp option"
  commanderUid :: "nat option"
  commanderSessionId :: "docid option"

record commandRequest =
  req_incidentId :: docid
  requesterUid :: nat
  requesterSessionId :: "docid option"
  currentCommanderUid :: nat
  req_status :: requestStatus
  requestTimestamp :: timestamp
  req_customerId :: nat

record logEntry =
  log_timestamp :: timestamp
  log_customerId :: nat
  log_incidentId :: docid
  log_eventType :: eventType

record store =
  customers :: "(docid \<times> customer) list"
  sessions :: "(docid \<times> session) list"
  incidents :: "(docid \<times> incident) list"
  commandRequests :: "(docid \<times> commandRequest) list"
  incidentLog :: "logEntry list"
  nextId :: nat

datatype reply =
    SessionId docid
  | SessionEnded
  | SessionNotFoundOrDenied
  | CommandGranted
  | CommandReestablished
  | RequestCreated docid
  | CommandApproved
  | RequestDenied
  | IncidentCreated docid
  | IncidentClosed

type_synonym outcome = "(error + reply) \<times> store"

subsection \<open>Documents\<close>

definition doc_get :: "(docid \<times> 'a) list \<Rightarrow> docid \<Rightarrow> 'a option" where
  "doc_get c k = map_of c k"

definition doc_delete :: "(docid \<times> 'a) list \<Rightarrow> docid \<Rightarrow> (docid \<times> 'a) list" where
  "doc_delete c k = filter (\<lambda>(k', v). k' \<noteq> k) c"

definition doc_update :: "(docid \<times> 'a) list \<Rightarrow> docid \<Rightarrow> ('a \<Rightarrow> 'a) \<Rightarrow> (docid \<times> 'a) list" where
  "doc_update c k f = map (\<lambda>(k', v). if k' = k then (k', f v) else (k', v)) c"

definition doc_ids :: "(docid \<times> 'a) list \<Rightarrow> docid list" where
  "doc_ids c = map fst c"

text \<open>\<^verbatim>\<open>x || 1\<close> on a quota field: a missing field and the number 0 both give 1.\<close>

definition or_one :: "nat option \<Rightarrow> nat" where
  "or_one x = (case x of None \<Rightarrow> 1 | Some n \<Rightarrow> if n = 0 then 1 else n)"

definition logIncidentAction :: "timestamp \<Rightarrow> nat \<Rightarrow> docid \<Rightarrow> eventType \<Rightarrow> store \<Rightarrow> store" where
  "logIncidentAction now cid iid ev s =
     s\<lparr>incidentLog := incidentLog s @
        [\<lparr>log_timestamp = now, log_customerId = cid, log_incidentId = iid,
          log_eventType = ev\<rparr>]\<rparr>"

section \<open>Session manager\<close>

definition currentSessions :: "store \<Rightarrow> nat \<Rightarrow> (docid \<times> session) list" where
  "currentSessions s cid = filter (\<lambda>(k, x). sess_customerId x = cid) (sessions s)"

definition addSession :: "authContext \<Rightarrow> timestamp \<Rightarrow> store \<Rightarrow> outcome" where
  "addSession auth now s =
     (Inr (SessionId (nextId s)),
      s\<lparr>sessions := sessions s @
           [(nextId s, \<lparr>sess_uid = auth_uid auth, sess_customerId = auth_customerId auth,
                        loginTime = now, lastActive = now\<rparr>)],
        nextId := Suc (nextId s)\<rparr>)"

definition deleteSession :: "docid \<Rightarrow> store \<Rightarrow> store" where
  "deleteSession k s = s\<lparr>sessions := doc_delete (sessions s) k\<rparr>"

text \<open>Check 2 of createSession: the query for an Active incident the caller commands,
  limited to one document.\<close>

definition commanderQuery :: "authContext \<Rightarrow> store \<Rightarrow> (docid \<times> incident) list" where
  "commanderQuery auth s =
     take 1 (filter (\<lambda>(k, i). inc_customerId i = auth_customerId auth \<and>
                              commanderUid i = Some (auth_uid auth) \<and>
                              inc_status i = Active) (incidents s))"

definition oldSessionId :: "authContext \<Rightarrow> store \<Rightarrow> docid option" where
  "oldSessionId auth s =
     (case commanderQuery auth s of [] \<Rightarrow> None | (k, i) # _ \<Rightarrow> commanderSessionId i)"

text \<open>Check 3 of createSession: the ids recorded as commanding session of an Active
  incident of the tenant, and the loop that keeps the oldest stale session that is not
  one of them.\<close>

definition commandingSessionIds :: "store \<Rightarrow> nat \<Rightarrow> docid list" where
  "commandingSessionIds s cid =
     List.map_filter
       (\<lambda>(k, i). if inc_customerId i = cid \<and> inc_status i = Active
                  then commanderSessionId i else None) (incidents s)"

definition staleStep ::
  "docid list \<Rightarrow> timestamp \<Rightarrow> (docid \<times> timestamp) option \<Rightarrow> docid \<times> session
     \<Rightarrow> (docid \<times> timestamp) option" where
  "staleStep commanding staleThreshold oldest d =
     (case d of (k, x) \<Rightarrow>
        if k \<notin> set commanding \<and> lastActive x < staleThreshold
        then (case oldest of
                None \<Rightarrow> Some (k, lastActive x)
              | Some (k', t') \<Rightarrow> if lastActive x < t' then Some (k, lastActive x) else oldest)
        else oldest)"

definition oldestStaleSession :: "authContext \<Rightarrow> timestamp \<Rightarrow> store \<Rightarrow> (docid \<times> timestamp) option" where
  "oldestStaleSession auth now s =
     foldl (staleStep (commandingSessionIds s (auth_customerId auth)) (now - 15 * 60 * 1000))
       None (currentSessions s (auth_customerId auth))"

definition createSession :: "authContext \<Rightarrow> timestamp \<Rightarrow> store \<Rightarrow> outcome" where
  "createSession auth now s =
     (case doc_get (customers s) (auth_customerId auth) of
        None \<Rightarrow> (Inl NotFound, s)
      | Some cust \<Rightarrow>
          if length (currentSessions s (auth_customerId auth)) < or_one (maxTotalSessions cust)
          then addSession auth now s
          else (case oldSessionId auth s of
                  Some old \<Rightarrow> addSession auth now (deleteSession old s)
                | None \<Rightarrow>
                    (case oldestStaleSession auth now s of
                       Some (k, t) \<Rightarrow> addSession auth now (deleteSession k s)
                     | None \<Rightarrow> (Inl PermissionDenied, s))))"

definition endSession :: "docid option \<Rightarrow> authContext \<Rightarrow> store \<Rightarrow> outcome" where
  "endSession sessionId auth s =
     (case sessionId of
        None \<Rightarrow> (Inl InvalidArgument, s)
      | Some sid \<Rightarrow>
          (case doc_get (sessions s) sid of
             Some x \<Rightarrow>
               if sess_uid x = auth_uid auth then (Inr SessionEnded, deleteSession sid s)
               else (Inr SessionNotFoundOrDenied, s)
           | None \<Rightarrow> (Inr SessionNotFoundOrDenied, s)))"

section \<open>Command arbiter\<close>

text \<open>The two gate queries of takeIncidentCommand. The second one has no filter on
  the status of the incident.\<close>

definition commandingIncidents :: "store \<Rightarrow> nat \<Rightarrow> (docid \<times> incident) list" where
  "commandingIncidents s cid =
     filter (\<lambda>(k, i). inc_customerId i = cid \<and> inc_status i = Active \<and> commanderUid i \<noteq> None)
       (incidents s)"

definition userIncidents :: "store \<Rightarrow> nat \<Rightarrow> nat \<Rightarrow> docid \<Rightarrow> (docid \<times> incident) list" where
  "userIncidents s cid u iid =
     filter (\<lambda>(k, i). inc_customerId i = cid \<and> commanderUid i = Some u \<and> k \<noteq> iid) (incidents s)"

definition grantCommand :: "nat \<Rightarrow> docid \<Rightarrow> incident \<Rightarrow> incident" where
  "grantCommand u sid i = i\<lparr>commanderUid := Some u, commanderSessionId := Some sid\<rparr>"

definition takeIncidentCommand ::
  "docid option \<Rightarrow> docid option \<Rightarrow> authContext \<Rightarrow> store \<Rightarrow> outcome" where
  "takeIncidentCommand incidentId sessionId auth s =
     (case (incidentId, sessionId) of
        (Some iid, Some sid) \<Rightarrow>
          if (case doc_get (sessions s) sid of
                None \<Rightarrow> True | Some x \<Rightarrow> sess_uid x \<noteq> auth_uid auth)
          then (Inl PermissionDenied, s)
          else
            (case doc_get (customers s) (auth_customerId auth) of
               None \<Rightarrow> (Inl PlainError, s)
             | Some cust \<Rightarrow>
                 (case doc_get (incidents s) iid of
                    None \<Rightarrow> (Inl PlainError, s)
                  | Some inc \<Rightarrow>
                      if inc_customerId inc \<noteq> auth_customerId auth then (Inl PlainError, s)
                      else if or_one (maxCommandLicenses cust)
                                \<le> length (commandingIncidents s (auth_customerId auth)) \<and>
                              commanderUid inc \<noteq> Some (auth_uid auth)
                      then (Inl PermissionDenied, s)
                      else if userIncidents s (auth_customerId auth) (auth_uid auth) iid \<noteq> []
                      then (Inl PermissionDenied, s)
                      else (Inr CommandGranted,
                            s\<lparr>incidents := doc_update (incidents s) iid
                                 (grantCommand (auth_uid auth) sid)\<rparr>)))
      | _ \<Rightarrow> (Inl InvalidArgument, s))"

text \<open>startNewIncident: the incident number and name are display data that no
  arbitration code reads; they are left out of the incident document.\<close>

definition activeUserIncidents :: "store \<Rightarrow> nat \<Rightarrow> nat \<Rightarrow> (docid \<times> incident) list" where
  "activeUserIncidents s cid u =
     take 1 (filter (\<lambda>(k, i). inc_customerId i = cid \<and> commanderUid i = Some u \<and>
                              inc_status i = Active) (incidents s))"

definition startNewIncident :: "docid option \<Rightarrow> authContext \<Rightarrow> timestamp \<Rightarrow> store \<Rightarrow> outcome" where
  "startNewIncident sessionId auth now s =
     (case sessionId of
        None \<Rightarrow> (Inl InvalidArgument, s)
      | Some sid \<Rightarrow>
          (case doc_get (customers s) (auth_customerId auth) of
             None \<Rightarrow> (Inl PlainError, s)
           | Some cust \<Rightarrow>
               if or_one (maxCommandLicenses cust)
                    \<le> length (commandingIncidents s (auth_customerId auth))
               then (Inl PermissionDenied, s)
               else if activeUserIncidents s (auth_customerId auth) (auth_uid auth) \<noteq> []
               then (Inl FailedPrecondition, s)
               else (Inr (IncidentCreated (nextId s)),
                     s\<lparr>incidents := incidents s @
                          [(nextId s,
                            \<lparr>inc_customerId = auth_customerId auth, inc_status = Active,
                             startTime = now, endTime = None,
                             commanderUid = Some (auth_uid auth),
                             commanderSessionId = Some sid\<rparr>)],
                       nextId := Suc (nextId s)\<rparr>)))"

text \<open>closeIncident also releases units and assignments, collections outside this
  model; both of its branches write the same update to the incident.\<close>

definition closeFields :: "timestamp \<Rightarrow> incident \<Rightarrow> incident" where
  "closeFields now i =
     i\<lparr>inc_status := Closed, endTime := Some now, commanderUid := None,
       commanderSessionId := None\<rparr>"

definition closeIncident :: "docid option \<Rightarrow> authContext \<Rightarrow> timestamp \<Rightarrow> store \<Rightarrow> outcome" where
  "closeIncident incidentId auth now s =
     (case incidentId of
        None \<Rightarrow> (Inl PlainError, s)
      | Some iid \<Rightarrow>
          (case doc_get (incidents s) iid of
             None \<Rightarrow> (Inl PlainError, s)
           | Some inc \<Rightarrow>
               if inc_customerId inc \<noteq> auth_customerId auth then (Inl PermissionDenied, s)
               else if commanderUid inc \<noteq> Some (auth_uid auth) then (Inl PermissionDenied, s)
               else (Inr IncidentClosed,
                     s\<lparr>incidents := doc_update (incidents s) iid (closeFields now)\<rparr>)))"

definition reestablishCommand ::
  "docid option \<Rightarrow> docid option \<Rightarrow> authContext \<Rightarrow> timestamp \<Rightarrow> store \<Rightarrow> outcome" where
  "reestablishCommand incidentId sessionId auth now s =
     (case (incidentId, sessionId) of
        (Some iid, Some sid) \<Rightarrow>
          (case doc_get (incidents s) iid of
             None \<Rightarrow> (Inl PlainError, s)
           | Some inc \<Rightarrow>
               if commanderUid inc \<noteq> Some (auth_uid auth) then (Inl PermissionDenied, s)
               else (Inr CommandReestablished,
                     logIncidentAction now (auth_customerId auth) iid COMMAND_REESTABLISHED
                       (s\<lparr>incidents := doc_update (incidents s) iid
                            (\<lambda>i. i\<lparr>commanderSessionId := Some sid\<rparr>)\<rparr>)))
      | _ \<Rightarrow> (Inl InvalidArgument, s))"

section \<open>Handoff workflow\<close>

definition pendingRequests :: "store \<Rightarrow> docid \<Rightarrow> (docid \<times> commandRequest) list" where
  "pendingRequests s iid =
     take 1 (filter (\<lambda>(k, r). req_incidentId r = iid \<and> req_status r = Pending)
               (commandRequests s))"

definition requestIncidentCommand ::
  "docid option \<Rightarrow> docid option \<Rightarrow> authContext \<Rightarrow> timestamp \<Rightarrow> store \<Rightarrow> outcome" where
  "requestIncidentCommand incidentId sessionId auth now s =
     (case (incidentId, sessionId) of
        (Some iid, Some sid) \<Rightarrow>
          (case doc_get (incidents s) iid of
             None \<Rightarrow> (Inl PlainError, s)
           | Some inc \<Rightarrow>
               if inc_customerId inc \<noteq> auth_customerId auth then (Inl PermissionDenied, s)
               else
                 (case commanderUid inc of
                    None \<Rightarrow> (Inl FailedPrecondition, s)
                  | Some c \<Rightarrow>
                      if c = auth_uid auth then (Inl FailedPrecondition, s)
                      else if pendingRequests s iid \<noteq> [] then (Inl AlreadyExists, s)
                      else (Inr (RequestCreated (nextId s)),
                            logIncidentAction now (auth_customerId auth) iid COMMAND_REQUEST
                              (s\<lparr>commandRequests := commandRequests s @
                                   [(nextId s,
                                     \<lparr>req_incidentId = iid, requesterUid = auth_uid auth,
                                      requesterSessionId = Some sid, currentCommanderUid = c,
                                      req_status = Pending, requestTimestamp = now,
                                      req_customerId = auth_customerId auth\<rparr>)],
                                 nextId := Suc (nextId s)\<rparr>))))
      | _ \<Rightarrow> (Inl InvalidArgument, s))"

text \<open>
  approveCommandRequest runs in a transaction. Its two updates are buffered and applied
  together at commit; an update of a document that does not exist makes the commit fail,
  and then neither is applied. The log entry is written with a plain \<^verbatim>\<open>add\<close> before
  the commit, outside the transaction, so it stays when the commit fails.
\<close>

definition approveWrites :: "docid \<Rightarrow> commandRequest \<Rightarrow> docid \<Rightarrow> store \<Rightarrow> store" where
  "approveWrites rid r rsid s =
     s\<lparr>incidents := doc_update (incidents s) (req_incidentId r)
                       (grantCommand (requesterUid r) rsid),
       commandRequests := doc_update (commandRequests s) rid (\<lambda>q. q\<lparr>req_status := Approved\<rparr>)\<rparr>"

definition approveCommandRequest ::
  "docid option \<Rightarrow> authContext \<Rightarrow> timestamp \<Rightarrow> store \<Rightarrow> outcome" where
  "approveCommandRequest requestId auth now s =
     (case requestId of
        None \<Rightarrow> (Inl InvalidArgument, s)
      | Some rid \<Rightarrow>
          (case doc_get (commandRequests s) rid of
             None \<Rightarrow> (Inl PlainError, s)
           | Some r \<Rightarrow>
               if currentCommanderUid r \<noteq> auth_uid auth then (Inl PermissionDenied, s)
               else
                 (case requesterSessionId r of
                    None \<Rightarrow> (Inl PlainError, s)
                  | Some rsid \<Rightarrow>
                      (case doc_get (incidents s) (req_incidentId r) of
                         None \<Rightarrow>
                           (Inl PlainError,
                            logIncidentAction now (auth_customerId auth) (req_incidentId r)
                              COMMAND_APPROVED s)
                       | Some inc \<Rightarrow>
                           (Inr CommandApproved,
                            logIncidentAction now (auth_customerId auth) (req_incidentId r)
                              COMMAND_APPROVED (approveWrites rid r rsid s))))))"

definition denyCommandRequest ::
  "docid option \<Rightarrow> authContext \<Rightarrow> timestamp \<Rightarrow> store \<Rightarrow> outcome" where
  "denyCommandRequest requestId auth now s =
     (case requestId of
        None \<Rightarrow> (Inl InvalidArgument, s)
      | Some rid \<Rightarrow>
          (case doc_get (commandRequests s) rid of
             None \<Rightarrow> (Inl PlainError, s)
           | Some r \<Rightarrow>
               if currentCommanderUid r \<noteq> auth_uid auth then (Inl PermissionDenied, s)
               else (Inr RequestDenied,
                     logIncidentAction now (auth_customerId auth) (req_incidentId r)
                       COMMAND_DENIED
                       (s\<lparr>commandRequests := doc_update (commandRequests s) rid
                            (\<lambda>q. q\<lparr>req_status := Denied\<rparr>)\<rparr>))))"

section \<open>Liveness reaper\<close>

text \<open>A sweep collects its writes in a batch and commits the batch at the end.\<close>

datatype batchWrite = ClearCommander docid | DeleteSession docid

definition clearCommander :: "incident \<Rightarrow> incident" where
  "clearCommander i = i\<lparr>commanderUid := None, commanderSessionId := None\<rparr>"

fun applyWrite :: "batchWrite \<Rightarrow> store \<Rightarrow> store" where
  "applyWrite (ClearCommander k) s =
     s\<lparr>incidents := doc_update (incidents s) k clearCommander\<rparr>"
| "applyWrite (DeleteSession k) s = deleteSession k s"

definition commitBatch :: "batchWrite list \<Rightarrow> store \<Rightarrow> store" where
  "commitBatch ws s = fold applyWrite ws s"

definition staleSessionIds :: "timestamp \<Rightarrow> store \<Rightarrow> docid list" where
  "staleSessionIds now s =
     map fst (filter (\<lambda>(k, x). lastActive x < now - 2 * 60 * 60 * 1000) (sessions s))"

text \<open>
  The hourly sweep asks for the Active incidents whose commanderSessionId is
  \<^verbatim>\<open>in\<close> the list of all stale session ids. \<open>lockedMatches\<close> are the documents
  that match; \<open>lockedIncidents\<close> is the query: the store refuses it when the list has
  more than \<open>inFilterLimit\<close> values, the function throws and nothing is written.
\<close>

definition inFilterLimit :: nat where
  "inFilterLimit = 30"

definition lockedMatches :: "timestamp \<Rightarrow> store \<Rightarrow> (docid \<times> incident) list" where
  "lockedMatches now s =
     filter (\<lambda>(k, i). inc_status i = Active \<and>
                      (case commanderSessionId i of
                         None \<Rightarrow> False
                       | Some sid \<Rightarrow> sid \<in> set (staleSessionIds now s))) (incidents s)"

definition lockedIncidents :: "timestamp \<Rightarrow> store \<Rightarrow> error + (docid \<times> incident) list" where
  "lockedIncidents now s =
     (if inFilterLimit < length (staleSessionIds now s) then Inl PlainError
      else Inr (lockedMatches now s))"

definition sessionsToDelete :: "(docid \<times> incident) list \<Rightarrow> docid list" where
  "sessionsToDelete locked =
     remdups (List.map_filter (\<lambda>(k, i). commanderSessionId i) locked)"

definition hourlyBatch :: "timestamp \<Rightarrow> store \<Rightarrow> error + batchWrite list" where
  "hourlyBatch now s =
     (if staleSessionIds now s = [] then Inr []
      else (case lockedIncidents now s of
              Inl e \<Rightarrow> Inl e
            | Inr locked \<Rightarrow>
                if locked = [] then Inr []
                else Inr (map (\<lambda>(k, i). ClearCommander k) locked @
                          map DeleteSession (sessionsToDelete locked))))"

text \<open>The scheduled function has no caller: what a run leaves is the store.\<close>

definition cleanupstalecommandsessions :: "timestamp \<Rightarrow> store \<Rightarrow> store" where
  "cleanupstalecommandsessions now s =
     (case hourlyBatch now s of Inl e \<Rightarrow> s | Inr ws \<Rightarrow> commitBatch ws s)"

text \<open>The daily sweep: a query with an inequality on lastActive returns its documents
  in the order of that field, and the limit keeps the first 400.\<close>

definition oldSessions :: "timestamp \<Rightarrow> store \<Rightarrow> (docid \<times> session) list" where
  "oldSessions now s =
     take 400 (sort_key (\<lambda>(k, x). lastActive x)
                 (filter (\<lambda>(k, x). lastActive x < now - 60 * 24 * 60 * 60 * 1000) (sessions s)))"

definition cleanupoldsessions :: "timestamp \<Rightarrow> store \<Rightarrow> store" where
  "cleanupoldsessions now s = commitBatch (map (\<lambda>(k, x). DeleteSession k) (oldSessions now s)) s"

section \<open>Example stores\<close>

text \<open>Tenant 7 with two users. In \<open>fullLicenceStore\<close> user 1 commands incident 101
  through session 100 and holds the only command license; incident 103 has no
  commander. \<open>twoLicenceStore\<close> is the same store with a second command license.\<close>

definition user1 :: authContext where "user1 = \<lparr>auth_uid = 1, auth_customerId = 7\<rparr>"
definition user2 :: authContext where "user2 = \<lparr>auth_uid = 2, auth_customerId = 7\<rparr>"

definition fullLicenceStore :: store where
  "fullLicenceStore =
     \<lparr>customers = [(7, \<lparr>maxTotalSessions = Some 2, maxCommandLicenses = Some 1\<rparr>)],
      sessions =
        [(100, \<lparr>sess_uid = 1, sess_customerId = 7, loginTime = 1000, lastActive = 1000\<rparr>),
         (102, \<lparr>sess_uid = 2, sess_customerId = 7, loginTime = 3000, lastActive = 3000\<rparr>)],
      incidents =
        [(101, \<lparr>inc_customerId = 7, inc_status = Active, startTime = 2000, endTime = None,
                commanderUid = Some 1, commanderSessionId = Some 100\<rparr>),
         (103, \<lparr>inc_customerId = 7, inc_status = Active, startTime = 4000, endTime = None,
                commanderUid = None, commanderSessionId = None\<rparr>)],
      commandRequests = [], incidentLog = [], nextId = 104\<rparr>"


text \<open>A tenant configured with 0 command licenses. In \<open>zeroLicenceStore\<close> user 1
  has logged in and started incident 101, the hourly sweep has released the lock of the
  idle session, and user 2 has logged in: incident 101 is Active without a commander.\<close>

definition zeroLicenceTenant :: store where
  "zeroLicenceTenant =
     \<lparr>customers = [(7, \<lparr>maxTotalSessions = Some 2, maxCommandLicenses = Some 0\<rparr>)],
      sessions = [], incidents = [], commandRequests = [], incidentLog = [], nextId = 100\<rparr>"

definition zeroLicenceStore :: store where
  "zeroLicenceStore =
     zeroLicenceTenant
       \<lparr>sessions :=
          [(102, \<lparr>sess_uid = 2, sess_customerId = 7, loginTime = 10900000,
                  lastActive = 10900000\<rparr>)],
        incidents :=
          [(101, \<lparr>inc_customerId = 7, inc_status = Active, startTime = 2000, endTime = None,
                  commanderUid = None, commanderSessionId = None\<rparr>)],
        nextId := 103\<rparr>"




text \<open>\<open>pendingStore\<close> is \<open>fullLicenceStore\<close> after user 2 has asked for the
  command of incident 101, and \<open>deniedStore\<close> is \<open>pendingStore\<close> after user 1 has denied
  the request.\<close>

definition pendingStore :: store where
  "pendingStore =
     fullLicenceStore
       \<lparr>commandRequests :=
          [(104, \<lparr>req_incidentId = 101, requesterUid = 2, requesterSessionId = Some 102,
                  currentCommanderUid = 1, req_status = Pending, requestTimestamp = 5000,
                  req_customerId = 7\<rparr>)],
        incidentLog :=
          [\<lparr>log_timestamp = 5000, log_customerId = 7, log_incidentId = 101,
            log_eventType = COMMAND_REQUEST\<rparr>],
        nextId := 105\<rparr>"

definition deniedStore :: store where
  "deniedStore =
     pendingStore
       \<lparr>commandRequests :=
          [(104, \<lparr>req_incidentId = 101, requesterUid = 2, requesterSessionId = Some 102,
                  currentCommanderUid = 1, req_status = Denied, requestTimestamp = 5000,
                  req_customerId = 7\<rparr>)],
        incidentLog :=
          [\<lparr>log_timestamp = 5000, log_customerId = 7, log_incidentId = 101,
            log_eventType = COMMAND_REQUEST\<rparr>,
           \<lparr>log_timestamp = 5500, log_customerId = 7, log_incidentId = 101,
            log_eventType = COMMAND_DENIED\<rparr>]\<rparr>"

text \<open>Tenant 7 with one session slot. \<open>quotaOneStore\<close> is the tenant before anyone
  logs in. In \<open>scenarioB\<close> user 1 has logged in (session 100) and started incident 101.
  \<open>danglingStore\<close> is \<open>scenarioB\<close> after user 1 has logged in from a second device:
  session 100 is gone and incident 101 still records it.\<close>

definition quotaOneStore :: store where
  "quotaOneStore =
     \<lparr>customers = [(7, \<lparr>maxTotalSessions = Some 1, maxCommandLicenses = Some 1\<rparr>)],
      sessions = [], incidents = [], commandRequests = [], incidentLog = [], nextId = 100\<rparr>"

definition scenarioB :: store where
  "scenarioB =
     \<lparr>customers = [(7, \<lparr>maxTotalSessions = Some 1, maxCommandLicenses = Some 1\<rparr>)],
      sessions =
        [(100, \<lparr>sess_uid = 1, sess_customerId = 7, loginTime = 1000, lastActive = 1000\<rparr>)],
      incidents =
        [(101, \<lparr>inc_customerId = 7, inc_status = Active, startTime = 2000, endTime = None,
                commanderUid = Some 1, commanderSessionId = Some 100\<rparr>)],
      commandRequests = [], incidentLog = [], nextId = 102\<rparr>"

definition danglingStore :: store where
  "danglingStore =
     scenarioB
       \<lparr>sessions :=
          [(102, \<lparr>sess_uid = 1, sess_customerId = 7, loginTime = 3000, lastActive = 3000\<rparr>)],
        nextId := 103\<rparr>"

text \<open>In \<open>twoSessionStore\<close> user 1 is recorded as commander of two Active incidents,
  each through a session of its own.\<close>

definition twoSessionStore :: store where
  "twoSessionStore =
     fullLicenceStore
       \<lparr>sessions :=
          [(100, \<lparr>sess_uid = 1, sess_customerId = 7, loginTime = 1000, lastActive = 1000\<rparr>),
           (102, \<lparr>sess_uid = 1, sess_customerId = 7, loginTime = 3000, lastActive = 3000\<rparr>)],
        incidents :=
          [(101, \<lparr>inc_customerId = 7, inc_status = Active, startTime = 2000, endTime = None,
                  commanderUid = Some 1, commanderSessionId = Some 100\<rparr>),
           (103, \<lparr>inc_customerId = 7, inc_status = Active, startTime = 4000, endTime = None,
                  commanderUid = Some 1, commanderSessionId = Some 102\<rparr>)]\<rparr>"

text \<open>A tenant with forty session slots. In \<open>manyStaleStore\<close> user 1 has logged in
  from 31 devices (sessions 200 to 230) and started incident 231 from the first one.\<close>

definition bigTenant :: store where
  "bigTenant =
     \<lparr>customers = [(7, \<lparr>maxTotalSessions = Some 40, maxCommandLicenses = Some 1\<rparr>)],
      sessions = [], incidents = [], commandRequests = [], incidentLog = [], nextId = 200\<rparr>"

definition standby :: session where
  "standby = \<lparr>sess_uid = 1, sess_customerId = 7, loginTime = 1000, lastActive = 1000\<rparr>"

definition manyStaleStore :: store where
  "manyStaleStore =
     bigTenant
       \<lparr>sessions := map (\<lambda>k. (k, standby)) [200..<231],
        incidents :=
          [(231, \<lparr>inc_customerId = 7, inc_status = Active, startTime = 2000, endTime = None,
                  commanderUid = Some 1, commanderSessionId = Some 200\<rparr>)],
        nextId := 232\<rparr>"

section \<open>Predicates of the claims\<close>

text \<open>A tenant is within its session quota. The quota is the value the code compares
  with: the configured field, or 1 when the field is missing or 0.\<close>

definition withinQuota :: "store \<Rightarrow> nat \<Rightarrow> bool" where
  "withinQuota s cid =
     (case doc_get (customers s) cid of
        None \<Rightarrow> True
      | Some cust \<Rightarrow> length (currentSessions s cid) \<le> or_one (maxTotalSessions cust))"


text \<open>The consistency of the commander fields: both empty or both set, and, in
  \<open>commandConsistent\<close>, a recorded commanding session exists and belongs to the recorded
  commander.\<close>

definition bothOrNone :: "store \<Rightarrow> bool" where
  "bothOrNone s =
     list_all (\<lambda>(k, i). (commanderUid i = None) = (commanderSessionId i = None)) (incidents s)"

definition commandLive :: "store \<Rightarrow> incident \<Rightarrow> bool" where
  "commandLive s i =
     (case commanderSessionId i of
        None \<Rightarrow> commanderUid i = None
      | Some sid \<Rightarrow>
          (case doc_get (sessions s) sid of
             None \<Rightarrow> False
           | Some x \<Rightarrow> commanderUid i = Some (sess_uid x)))"

definition commandConsistent :: "store \<Rightarrow> bool" where
  "commandConsistent s = list_all (\<lambda>(k, i). commandLive s i) (incidents s)"

text \<open>At most one pending request per incident: the incident ids of the pending
  requests are pairwise different. A run of the handoff workflow is a list of calls,
  each applied to the store the one before left.\<close>

definition pendingIncidentIds :: "store \<Rightarrow> docid list" where
  "pendingIncidentIds s =
     map (\<lambda>(k, r). req_incidentId r)
       (filter (\<lambda>(k, r). req_status r = Pending) (commandRequests s))"

definition atMostOnePending :: "store \<Rightarrow> bool" where
  "atMostOnePending s = distinct (pendingIncidentIds s)"

datatype handoffCall =
    Request "docid option" "docid option" authContext timestamp
  | Approve "docid option" authContext timestamp
  | Deny "docid option" authContext timestamp

fun handoffStep :: "handoffCall \<Rightarrow> store \<Rightarrow> store" where
  "handoffStep (Request incidentId sessionId auth now) s =
     snd (requestIncidentCommand incidentId sessionId auth now s)"
| "handoffStep (Approve requestId auth now) s = snd (approveCommandRequest requestId auth now s)"
| "handoffStep (Deny requestId auth now) s = snd (denyCommandRequest requestId auth now s)"

text \<open>The session ids recorded as commanding session of an Active incident.\<close>

definition activeCommandSessionIds :: "store \<Rightarrow> docid list" where
  "activeCommandSessionIds s =
     List.map_filter (\<lambda>(k, i). if inc_status i = Active then commanderSessionId i else None)
       (incidents s)"

section \<open>Lemmas about documents\<close>

lemma doc_get_update:
  "doc_get (doc_update c k f) k' = (if k' = k then map_option f (doc_get c k) else doc_get c k')"
  by (induction c) (auto simp: doc_get_def doc_update_def)


section \<open>The license gate of takeIncidentCommand\<close>

text \<open>
  Claim C2, as amended. The gate compares the number of Active incidents of the tenant
  that have a commander with the configured \<open>maxCommandLicenses\<close> read as 1 when the
  field is missing or 0. For a call by a user whose tenant has a customer profile, on an
  incident of that tenant: when that number is at or above the quota so read and the
  commander of the target incident is not the caller, the call fails with
  permission-denied and the store is unchanged. A caller who is already the commander of
  the target incident passes the gate whatever the count is: with a session of their own
  and no other incident under their command, the call grants the command.
\<close>

theorem takeIncidentCommand_license_gate:
  assumes "doc_get (customers s) (auth_customerId auth) = Some cust"
      and "doc_get (incidents s) iid = Some inc"
      and "inc_customerId inc = auth_customerId auth"
  shows "(or_one (maxCommandLicenses cust) \<le> length (commandingIncidents s (auth_customerId auth)) \<and>
          commanderUid inc \<noteq> Some (auth_uid auth)
            \<longrightarrow> takeIncidentCommand (Some iid) (Some sid) auth s = (Inl PermissionDenied, s)) \<and>
         (commanderUid inc = Some (auth_uid auth) \<and>
          doc_get (sessions s) sid = Some x \<and> sess_uid x = auth_uid auth \<and>
          userIncidents s (auth_customerId auth) (auth_uid auth) iid = []
            \<longrightarrow> takeIncidentCommand (Some iid) (Some sid) auth s =
                  (Inr CommandGranted,
                   s\<lparr>incidents := doc_update (incidents s) iid
                        (grantCommand (auth_uid auth) sid)\<rparr>))"
  using assms by (auto simp: takeIncidentCommand_def split: option.splits)

theorem takeIncidentCommand_license_gate_witness:
  "takeIncidentCommand (Some 103) (Some 102) user2 fullLicenceStore =
     (Inl PermissionDenied, fullLicenceStore) \<and>
   takeIncidentCommand (Some 101) (Some 100) user1 fullLicenceStore =
     (Inr CommandGranted,
      fullLicenceStore\<lparr>incidents := doc_update (incidents fullLicenceStore) 101
                                         (grantCommand 1 100)\<rparr>)"
proof -
  have full: "length (commandingIncidents fullLicenceStore 7) = 1"
    by (simp add: fullLicenceStore_def commandingIncidents_def)
  have none: "userIncidents fullLicenceStore 7 1 101 = []"
    by (simp add: fullLicenceStore_def userIncidents_def)
  have a: "takeIncidentCommand (Some 103) (Some 102) user2 fullLicenceStore =
             (Inl PermissionDenied, fullLicenceStore)"
    using takeIncidentCommand_license_gate
      [where s = fullLicenceStore and auth = user2 and iid = 103 and sid = 102
         and cust = "\<lparr>maxTotalSessions = Some 2, maxCommandLicenses = Some 1\<rparr>"
         and inc = "\<lparr>inc_customerId = 7, inc_status = Active, startTime = 4000,
                     endTime = None, commanderUid = None, commanderSessionId = None\<rparr>"]
      full
    by (simp add: fullLicenceStore_def user2_def doc_get_def or_one_def)
  have b: "takeIncidentCommand (Some 101) (Some 100) user1 fullLicenceStore =
     (Inr CommandGranted,
      fullLicenceStore\<lparr>incidents := doc_update (incidents fullLicenceStore) 101
                                         (grantCommand 1 100)\<rparr>)"
    using takeIncidentCommand_license_gate
      [where s = fullLicenceStore and auth = user1 and iid = 101 and sid = 100
         and cust = "\<lparr>maxTotalSessions = Some 2, maxCommandLicenses = Some 1\<rparr>"
         and inc = "\<lparr>inc_customerId = 7, inc_status = Active, startTime = 2000,
                     endTime = None, commanderUid = Some 1, commanderSessionId = Some 100\<rparr>"
         and x = "\<lparr>sess_uid = 1, sess_customerId = 7, loginTime = 1000, lastActive = 1000\<rparr>"]
      none
    by (simp add: fullLicenceStore_def user1_def doc_get_def)
  from a b show ?thesis by simp
qed

text \<open>
  Claim C2 as stated compares with the tenant's maxCommandLicenses. With the field
  configured as 0, no incident under command and an Active incident without a
  commander, the count 0 is at or above the configured 0 and the commander of the target
  is not the caller, yet the source computes \<^verbatim>\<open>maxCommandLicenses || 1\<close>, compares 0
  with 1 and grants the command. The store is built by the code's own calls.
\<close>

theorem takeIncidentCommand_zero_licences_counterexample:
  "snd (createSession user2 10900000
         (cleanupstalecommandsessions 10801000
            (snd (startNewIncident (Some 100) user1 2000
                    (snd (createSession user1 1000 zeroLicenceTenant)))))) = zeroLicenceStore \<and>
   map_option maxCommandLicenses (doc_get (customers zeroLicenceStore) 7) = Some (Some 0) \<and>
   length (commandingIncidents zeroLicenceStore 7) = 0 \<and>
   map_option commanderUid (doc_get (incidents zeroLicenceStore) 101) = Some None \<and>
   takeIncidentCommand (Some 101) (Some 102) user2 zeroLicenceStore =
     (Inr CommandGranted,
      zeroLicenceStore
        \<lparr>incidents :=
           [(101, \<lparr>inc_customerId = 7, inc_status = Active, startTime = 2000, endTime = None,
                   commanderUid = Some 2, commanderSessionId = Some 102\<rparr>)]\<rparr>)"
proof -
  have a: "snd (startNewIncident (Some 100) user1 2000
                    (snd (createSession user1 1000 zeroLicenceTenant))) =
           zeroLicenceTenant
             \<lparr>sessions :=
                [(100, \<lparr>sess_uid = 1, sess_customerId = 7, loginTime = 1000, lastActive = 1000\<rparr>)],
              incidents :=
                [(101, \<lparr>inc_customerId = 7, inc_status = Active, startTime = 2000,
                        endTime = None, commanderUid = Some 1, commanderSessionId = Some 100\<rparr>)],
              nextId := 102\<rparr>"
    by (simp add: createSession_def startNewIncident_def zeroLicenceTenant_def user1_def
          doc_get_def or_one_def currentSessions_def addSession_def commandingIncidents_def
          activeUserIncidents_def)
  have b: "cleanupstalecommandsessions 10801000
             (zeroLicenceTenant
               \<lparr>sessions :=
                  [(100, \<lparr>sess_uid = 1, sess_customerId = 7, loginTime = 1000, lastActive = 1000\<rparr>)],
                incidents :=
                  [(101, \<lparr>inc_customerId = 7, inc_status = Active, startTime = 2000,
                          endTime = None, commanderUid = Some 1, commanderSessionId = Some 100\<rparr>)],
                nextId := 102\<rparr>) =
           zeroLicenceTenant
             \<lparr>sessions := [],
              incidents :=
                [(101, \<lparr>inc_customerId = 7, inc_status = Active, startTime = 2000,
                        endTime = None, commanderUid = None, commanderSessionId = None\<rparr>)],
              nextId := 102\<rparr>"
    by (simp add: cleanupstalecommandsessions_def hourlyBatch_def lockedIncidents_def
          lockedMatches_def staleSessionIds_def sessionsToDelete_def commitBatch_def
          inFilterLimit_def zeroLicenceTenant_def clearCommander_def deleteSession_def
          doc_update_def doc_delete_def)
  have c: "snd (createSession user2 10900000
             (zeroLicenceTenant
               \<lparr>sessions := [],
                incidents :=
                  [(101, \<lparr>inc_customerId = 7, inc_status = Active, startTime = 2000,
                          endTime = None, commanderUid = None, commanderSessionId = None\<rparr>)],
                nextId := 102\<rparr>)) = zeroLicenceStore"
    by (simp add: createSession_def zeroLicenceStore_def zeroLicenceTenant_def user2_def
          doc_get_def or_one_def currentSessions_def addSession_def)
  have d: "map_option maxCommandLicenses (doc_get (customers zeroLicenceStore) 7) = Some (Some 0) \<and>
   length (commandingIncidents zeroLicenceStore 7) = 0 \<and>
   map_option commanderUid (doc_get (incidents zeroLicenceStore) 101) = Some None \<and>
   takeIncidentCommand (Some 101) (Some 102) user2 zeroLicenceStore =
     (Inr CommandGranted,
      zeroLicenceStore
        \<lparr>incidents :=
           [(101, \<lparr>inc_customerId = 7, inc_status = Active, startTime = 2000, endTime = None,
                   commanderUid = Some 2, commanderSessionId = Some 102\<rparr>)]\<rparr>)"
    by (simp add: takeIncidentCommand_def zeroLicenceStore_def zeroLicenceTenant_def user2_def
          doc_get_def or_one_def commandingIncidents_def userIncidents_def doc_update_def
          grantCommand_def)
  from a b c d show ?thesis by simp
qed

section \<open>approveCommandRequest\<close>

text \<open>
  Claim C3. For a request document that exists: an approver whose uid differs from the
  recorded currentCommanderUid gets permission-denied and the store is unchanged. When
  the uid matches and the request records a requesterSessionId, the call either
  succeeds, and then the incident carries the requester's uid and recorded session id as
  commander and the request is approved, or it fails (the incident document is gone),
  and then neither the incidents nor the requests have changed.
\<close>

theorem approveCommandRequest_atomic:
  assumes "doc_get (commandRequests s) rid = Some r"
  shows "(currentCommanderUid r \<noteq> auth_uid auth \<longrightarrow>
            approveCommandRequest (Some rid) auth now s = (Inl PermissionDenied, s)) \<and>
         (currentCommanderUid r = auth_uid auth \<and> requesterSessionId r = Some rsid \<longrightarrow>
            (case doc_get (incidents s) (req_incidentId r) of
               Some inc \<Rightarrow>
                 fst (approveCommandRequest (Some rid) auth now s) = Inr CommandApproved \<and>
                 doc_get (incidents (snd (approveCommandRequest (Some rid) auth now s)))
                     (req_incidentId r) =
                   Some (inc\<lparr>commanderUid := Some (requesterUid r),
                              commanderSessionId := Some rsid\<rparr>) \<and>
                 doc_get (commandRequests (snd (approveCommandRequest (Some rid) auth now s)))
                     rid =
                   Some (r\<lparr>req_status := Approved\<rparr>)
             | None \<Rightarrow>
                 fst (approveCommandRequest (Some rid) auth now s) = Inl PlainError \<and>
                 incidents (snd (approveCommandRequest (Some rid) auth now s)) = incidents s \<and>
                 commandRequests (snd (approveCommandRequest (Some rid) auth now s)) =
                   commandRequests s))"
  using assms
  by (auto simp: approveCommandRequest_def approveWrites_def logIncidentAction_def
        doc_get_update grantCommand_def split: option.splits)

theorem approveCommandRequest_atomic_witness:
  "approveCommandRequest (Some 104) user2 6000 pendingStore = (Inl PermissionDenied, pendingStore) \<and>
   fst (approveCommandRequest (Some 104) user1 6000 pendingStore) = Inr CommandApproved \<and>
   doc_get (incidents (snd (approveCommandRequest (Some 104) user1 6000 pendingStore))) 101 =
     Some \<lparr>inc_customerId = 7, inc_status = Active, startTime = 2000, endTime = None,
           commanderUid = Some 2, commanderSessionId = Some 102\<rparr> \<and>
   doc_get (commandRequests (snd (approveCommandRequest (Some 104) user1 6000 pendingStore))) 104 =
     Some \<lparr>req_incidentId = 101, requesterUid = 2, requesterSessionId = Some 102,
           currentCommanderUid = 1, req_status = Approved, requestTimestamp = 5000,
           req_customerId = 7\<rparr>"
proof -
  have r: "doc_get (commandRequests pendingStore) 104 =
      Some \<lparr>req_incidentId = 101, requesterUid = 2, requesterSessionId = Some 102,
                  currentCommanderUid = 1, req_status = Pending, requestTimestamp = 5000,
                  req_customerId = 7\<rparr>"
    by (simp add: pendingStore_def doc_get_def)
  have i: "doc_get (incidents pendingStore) 101 =
     Some \<lparr>inc_customerId = 7, inc_status = Active, startTime = 2000, endTime = None,
           commanderUid = Some 1, commanderSessionId = Some 100\<rparr>"
    by (simp add: pendingStore_def fullLicenceStore_def doc_get_def)
  show ?thesis
    using approveCommandRequest_atomic [OF r, where auth = user2 and now = 6000 and rsid = 102]
          approveCommandRequest_atomic [OF r, where auth = user1 and now = 6000 and rsid = 102] i
    by (simp add: user1_def user2_def)
qed

section \<open>reestablishCommand\<close>

text \<open>
  Claim C10, as amended. reestablishCommand with both ids given succeeds exactly when
  the incident exists and its commanderUid is the caller's uid. It then sets
  commanderSessionId to the given session id, leaves every other field of the incident
  and every other incident as they were, leaves the sessions alone and appends a log
  entry; no session is looked up, so the id need not name a session at all. When the
  incident exists with another commanderUid the call fails with permission-denied, when
  the incident does not exist it fails with a plain error (not permission-denied); both
  failures leave the store unchanged.
\<close>

theorem reestablishCommand_cases:
  "(case doc_get (incidents s) iid of
      None \<Rightarrow> reestablishCommand (Some iid) (Some sid) auth now s = (Inl PlainError, s)
    | Some inc \<Rightarrow>
        if commanderUid inc = Some (auth_uid auth)
        then reestablishCommand (Some iid) (Some sid) auth now s =
               (Inr CommandReestablished,
                logIncidentAction now (auth_customerId auth) iid COMMAND_REESTABLISHED
                  (s\<lparr>incidents := doc_update (incidents s) iid
                       (\<lambda>i. i\<lparr>commanderSessionId := Some sid\<rparr>)\<rparr>)) \<and>
             doc_get (incidents (snd (reestablishCommand (Some iid) (Some sid) auth now s))) iid =
               Some (inc\<lparr>commanderSessionId := Some sid\<rparr>) \<and>
             sessions (snd (reestablishCommand (Some iid) (Some sid) auth now s)) = sessions s
        else reestablishCommand (Some iid) (Some sid) auth now s = (Inl PermissionDenied, s))"
  by (auto simp: reestablishCommand_def logIncidentAction_def doc_get_update split: option.splits)

text \<open>
  Claim C10 as stated says that every call that does not succeed fails with
  permission-denied. For an incident id without a document the source throws
  \<^verbatim>\<open>new Error("Incident not found.")\<close>, which the router answers with status 500.
\<close>

theorem reestablishCommand_missing_incident:
  "doc_get (incidents fullLicenceStore) 999 = None \<and>
   reestablishCommand (Some 999) (Some 100) user1 6000 fullLicenceStore =
     (Inl PlainError, fullLicenceStore) \<and>
   fst (reestablishCommand (Some 999) (Some 100) user1 6000 fullLicenceStore) \<noteq> Inl PermissionDenied"
  by (simp add: reestablishCommand_def fullLicenceStore_def doc_get_def)

text \<open>The new session id is not checked: here it names no session.\<close>

lemma reestablishCommand_dead_session:
  "doc_get (sessions fullLicenceStore) 555 = None \<and>
   fst (reestablishCommand (Some 101) (Some 555) user1 6000 fullLicenceStore) = Inr CommandReestablished \<and>
   doc_get (incidents (snd (reestablishCommand (Some 101) (Some 555) user1 6000 fullLicenceStore))) 101 =
     Some \<lparr>inc_customerId = 7, inc_status = Active, startTime = 2000, endTime = None,
           commanderUid = Some 1, commanderSessionId = Some 555\<rparr>"
  by (simp add: reestablishCommand_def fullLicenceStore_def doc_get_def user1_def logIncidentAction_def doc_update_def)

section \<open>The handoff states\<close>

lemma approve_never_pending:
  assumes "doc_get (commandRequests (snd (approveCommandRequest requestId auth now s))) k = Some q"
      and "req_status q = Pending"
  shows "doc_get (commandRequests s) k = Some q"
  using assms
  by (auto simp: approveCommandRequest_def approveWrites_def logIncidentAction_def
        doc_get_update split: option.splits if_splits)

lemma deny_never_pending:
  assumes "doc_get (commandRequests (snd (denyCommandRequest requestId auth now s))) k = Some q"
      and "req_status q = Pending"
  shows "doc_get (commandRequests s) k = Some q"
  using assms
  by (auto simp: denyCommandRequest_def logIncidentAction_def
        doc_get_update split: option.splits if_splits)

text \<open>
  Claim C8, as amended. approveCommandRequest and denyCommandRequest do not read the
  status of the request. Called by the recorded currentCommanderUid on a request of any
  status, denyCommandRequest sets the status to denied and leaves the incidents alone,
  and approveCommandRequest (the request recording a session id, the incident existing)
  sets the status to approved and writes the requester's uid and session id to the
  incident again. Neither call ever makes a request pending: a request that is pending
  afterwards was the same pending request before.
\<close>

theorem handoff_status_not_checked:
  assumes "doc_get (commandRequests s) rid = Some r"
      and "currentCommanderUid r = auth_uid auth"
  shows "fst (denyCommandRequest (Some rid) auth now s) = Inr RequestDenied \<and>
         doc_get (commandRequests (snd (denyCommandRequest (Some rid) auth now s))) rid =
           Some (r\<lparr>req_status := Denied\<rparr>) \<and>
         incidents (snd (denyCommandRequest (Some rid) auth now s)) = incidents s \<and>
         (requesterSessionId r = Some rsid \<and>
          doc_get (incidents s) (req_incidentId r) = Some inc \<longrightarrow>
            fst (approveCommandRequest (Some rid) auth now s) = Inr CommandApproved \<and>
            doc_get (commandRequests (snd (approveCommandRequest (Some rid) auth now s))) rid =
              Some (r\<lparr>req_status := Approved\<rparr>) \<and>
            doc_get (incidents (snd (approveCommandRequest (Some rid) auth now s)))
                (req_incidentId r) =
              Some (grantCommand (requesterUid r) rsid inc)) \<and>
         (\<forall>k q. doc_get (commandRequests (snd (approveCommandRequest (Some rid) auth now s))) k
                   = Some q \<and> req_status q = Pending
                 \<longrightarrow> doc_get (commandRequests s) k = Some q) \<and>
         (\<forall>k q. doc_get (commandRequests (snd (denyCommandRequest (Some rid) auth now s))) k
                   = Some q \<and> req_status q = Pending
                 \<longrightarrow> doc_get (commandRequests s) k = Some q)"
proof -
  have d: "fst (denyCommandRequest (Some rid) auth now s) = Inr RequestDenied \<and>
         doc_get (commandRequests (snd (denyCommandRequest (Some rid) auth now s))) rid =
           Some (r\<lparr>req_status := Denied\<rparr>) \<and>
         incidents (snd (denyCommandRequest (Some rid) auth now s)) = incidents s"
    using assms
    by (simp add: denyCommandRequest_def logIncidentAction_def doc_get_update)
  have a: "requesterSessionId r = Some rsid \<and>
          doc_get (incidents s) (req_incidentId r) = Some inc \<longrightarrow>
            fst (approveCommandRequest (Some rid) auth now s) = Inr CommandApproved \<and>
            doc_get (commandRequests (snd (approveCommandRequest (Some rid) auth now s))) rid =
              Some (r\<lparr>req_status := Approved\<rparr>) \<and>
            doc_get (incidents (snd (approveCommandRequest (Some rid) auth now s)))
                (req_incidentId r) =
              Some (grantCommand (requesterUid r) rsid inc)"
    using assms
    by (simp add: approveCommandRequest_def approveWrites_def logIncidentAction_def
          doc_get_update)
  from d a show ?thesis
    using approve_never_pending deny_never_pending by blast
qed

theorem handoff_status_not_checked_witness:
  "fst (denyCommandRequest (Some 104) user1 6000 deniedStore) = Inr RequestDenied \<and>
   fst (approveCommandRequest (Some 104) user1 6000 deniedStore) = Inr CommandApproved \<and>
   doc_get (commandRequests (snd (approveCommandRequest (Some 104) user1 6000 deniedStore))) 104 =
     Some \<lparr>req_incidentId = 101, requesterUid = 2, requesterSessionId = Some 102,
           currentCommanderUid = 1, req_status = Approved, requestTimestamp = 5000,
           req_customerId = 7\<rparr> \<and>
   doc_get (incidents (snd (approveCommandRequest (Some 104) user1 6000 deniedStore))) 101 =
     Some \<lparr>inc_customerId = 7, inc_status = Active, startTime = 2000, endTime = None,
           commanderUid = Some 2, commanderSessionId = Some 102\<rparr>"
proof -
  have r: "doc_get (commandRequests deniedStore) 104 =
      Some \<lparr>req_incidentId = 101, requesterUid = 2, requesterSessionId = Some 102,
                  currentCommanderUid = 1, req_status = Denied, requestTimestamp = 5000,
                  req_customerId = 7\<rparr>"
    by (simp add: deniedStore_def pendingStore_def doc_get_def)
  have i: "doc_get (incidents deniedStore) 101 =
     Some \<lparr>inc_customerId = 7, inc_status = Active, startTime = 2000, endTime = None,
           commanderUid = Some 1, commanderSessionId = Some 100\<rparr>"
    by (simp add: deniedStore_def pendingStore_def fullLicenceStore_def doc_get_def)
  show ?thesis
    using handoff_status_not_checked [OF r, where auth = user1 and now = 6000 and rsid = 102
        and inc = "\<lparr>inc_customerId = 7, inc_status = Active, startTime = 2000, endTime = None,
           commanderUid = Some 1, commanderSessionId = Some 100\<rparr>"] i
    by (simp add: user1_def grantCommand_def)
qed

text \<open>
  Claim C8 as stated makes approved and denied terminal. User 2 asks for the command of
  incident 101 and user 1 denies the request; a later approveCommandRequest of user 1
  on the denied request succeeds, sets its status to approved and moves the command of
  incident 101 to user 2.
\<close>

theorem approve_after_deny_counterexample:
  "snd (requestIncidentCommand (Some 101) (Some 102) user2 5000 fullLicenceStore) = pendingStore \<and>
   snd (denyCommandRequest (Some 104) user1 5500 pendingStore) = deniedStore \<and>
   map_option req_status (doc_get (commandRequests deniedStore) 104) = Some Denied \<and>
   map_option commanderUid (doc_get (incidents deniedStore) 101) = Some (Some 1) \<and>
   fst (approveCommandRequest (Some 104) user1 6000 deniedStore) = Inr CommandApproved \<and>
   map_option req_status
     (doc_get (commandRequests (snd (approveCommandRequest (Some 104) user1 6000 deniedStore))) 104)
     = Some Approved \<and>
   map_option commanderUid
     (doc_get (incidents (snd (approveCommandRequest (Some 104) user1 6000 deniedStore))) 101)
     = Some (Some 2)"
  by (simp add: requestIncidentCommand_def denyCommandRequest_def approveCommandRequest_def
        approveWrites_def logIncidentAction_def pendingRequests_def pendingStore_def
        deniedStore_def fullLicenceStore_def user1_def user2_def doc_get_def doc_update_def
        grantCommand_def)

section \<open>Pending command requests\<close>

lemma distinct_map_count:
  "distinct (map f xs) \<longleftrightarrow> (\<forall>y. length (filter (\<lambda>x. f x = y) xs) \<le> 1)"
proof (induction xs)
  case Nil
  then show ?case by simp
next
  case (Cons a xs)
  have "f a \<notin> f ` set xs \<longleftrightarrow> filter (\<lambda>x. f x = f a) xs = []"
    by (simp add: filter_empty_conv image_iff) metis
  with Cons show ?case
    by (auto simp: le_Suc_eq)
qed

lemma atMostOnePending_iff:
  "atMostOnePending s \<longleftrightarrow>
     (\<forall>iid. length (filter (\<lambda>(k, r). req_incidentId r = iid \<and> req_status r = Pending)
                      (commandRequests s)) \<le> 1)"
proof -
  have "\<And>iid. filter (\<lambda>x. (case x of (k, r) \<Rightarrow> req_incidentId r) = iid)
                 (filter (\<lambda>(k, r). req_status r = Pending) (commandRequests s)) =
               filter (\<lambda>(k, r). req_incidentId r = iid \<and> req_status r = Pending)
                 (commandRequests s)"
    by (auto simp: case_prod_unfold intro!: filter_cong)
  then show ?thesis
    by (simp add: atMostOnePending_def pendingIncidentIds_def distinct_map_count)
qed

lemma pending_after_status_update:
  assumes "st \<noteq> Pending"
  shows "map (\<lambda>(k, r). req_incidentId r)
           (filter (\<lambda>(k, r). req_status r = Pending)
              (doc_update c rid (\<lambda>q. q\<lparr>req_status := st\<rparr>))) =
         map (\<lambda>(k, r). req_incidentId r)
           (filter (\<lambda>(k, r). k \<noteq> rid) (filter (\<lambda>(k, r). req_status r = Pending) c))"
  using assms by (induction c) (auto simp: doc_update_def)

lemma distinct_pending_update:
  assumes "st \<noteq> Pending"
      and "distinct (map (\<lambda>(k, r). req_incidentId r) (filter (\<lambda>(k, r). req_status r = Pending) c))"
  shows "distinct (map (\<lambda>(k, r). req_incidentId r)
           (filter (\<lambda>(k, r). req_status r = Pending)
              (doc_update c rid (\<lambda>q. q\<lparr>req_status := st\<rparr>))))"
  by (simp only: pending_after_status_update [OF assms(1)] distinct_map_filter [OF assms(2)])

lemma approve_keeps_pending:
  "atMostOnePending s \<Longrightarrow> atMostOnePending (snd (approveCommandRequest requestId auth now s))"
  by (auto simp: atMostOnePending_def pendingIncidentIds_def approveCommandRequest_def
        approveWrites_def logIncidentAction_def distinct_pending_update split: option.splits)

lemma deny_keeps_pending:
  "atMostOnePending s \<Longrightarrow> atMostOnePending (snd (denyCommandRequest requestId auth now s))"
  by (auto simp: atMostOnePending_def pendingIncidentIds_def denyCommandRequest_def
        logIncidentAction_def distinct_pending_update split: option.splits)

lemma no_pending_not_listed:
  assumes "pendingRequests s iid = []"
  shows "iid \<notin> set (pendingIncidentIds s)"
proof -
  from assms have "filter (\<lambda>(k, r). req_incidentId r = iid \<and> req_status r = Pending)
                     (commandRequests s) = []"
    by (simp add: pendingRequests_def take_Suc split: list.splits)
  then show ?thesis
    by (auto simp: pendingIncidentIds_def filter_empty_conv)
qed

lemma request_keeps_pending:
  "atMostOnePending s \<Longrightarrow>
     atMostOnePending (snd (requestIncidentCommand incidentId sessionId auth now s))"
  using no_pending_not_listed
  by (auto simp: atMostOnePending_def requestIncidentCommand_def logIncidentAction_def
        pendingIncidentIds_def split: option.splits)

lemma handoffStep_keeps_pending:
  "atMostOnePending s \<Longrightarrow> atMostOnePending (handoffStep c s)"
  by (cases c) (simp_all add: request_keeps_pending approve_keeps_pending deny_keeps_pending)

lemma handoff_run_keeps_pending:
  "atMostOnePending s \<Longrightarrow> atMostOnePending (fold handoffStep cs s)"
  by (induction cs arbitrary: s) (simp_all add: handoffStep_keeps_pending)

lemma request_fails_when_pending:
  assumes "pendingRequests s iid \<noteq> []"
  shows "\<exists>e. requestIncidentCommand (Some iid) sessionId auth now s = (Inl e, s)"
  using assms by (auto simp: requestIncidentCommand_def split: option.splits)

text \<open>
  Claim C7, as amended. While a pending request exists for an incident, every
  requestIncidentCommand call on that incident fails and leaves the store unchanged, so
  no request document is created. The error is already-exists when the checks that come
  first pass (both ids given, the incident exists in the caller's tenant, it has a
  commander and the commander is not the caller); otherwise it is the error of the
  first check that fails. After any sequence of requestIncidentCommand,
  approveCommandRequest and denyCommandRequest calls, started in a store with at most
  one pending request per incident, there is still at most one pending request per
  incident.
\<close>

theorem requestIncidentCommand_pending:
  "(pendingRequests s iid \<noteq> [] \<longrightarrow>
      (\<exists>e. requestIncidentCommand (Some iid) sessionId auth now s = (Inl e, s)) \<and>
      (doc_get (incidents s) iid = Some inc \<and> inc_customerId inc = auth_customerId auth \<and>
       commanderUid inc = Some c \<and> c \<noteq> auth_uid auth \<longrightarrow>
         requestIncidentCommand (Some iid) (Some sid) auth now s = (Inl AlreadyExists, s))) \<and>
   (atMostOnePending s \<longrightarrow> atMostOnePending (fold handoffStep calls s))"
proof -
  have "pendingRequests s iid \<noteq> [] \<Longrightarrow> doc_get (incidents s) iid = Some inc \<Longrightarrow>
        inc_customerId inc = auth_customerId auth \<Longrightarrow> commanderUid inc = Some c \<Longrightarrow>
        c \<noteq> auth_uid auth \<Longrightarrow>
        requestIncidentCommand (Some iid) (Some sid) auth now s = (Inl AlreadyExists, s)"
    by (simp add: requestIncidentCommand_def)
  then show ?thesis
    using request_fails_when_pending handoff_run_keeps_pending by blast
qed

theorem requestIncidentCommand_pending_witness:
  "requestIncidentCommand (Some 101) (Some 102) user2 6000 pendingStore =
     (Inl AlreadyExists, pendingStore) \<and>
   atMostOnePending
     (fold handoffStep
        [Request (Some 101) (Some 102) user2 6000, Deny (Some 104) user1 7000,
         Request (Some 101) (Some 102) user2 8000] pendingStore)"
proof -
  have p: "pendingRequests pendingStore 101 \<noteq> []"
    by (simp add: pendingRequests_def pendingStore_def)
  have i: "doc_get (incidents pendingStore) 101 =
     Some \<lparr>inc_customerId = 7, inc_status = Active, startTime = 2000, endTime = None,
           commanderUid = Some 1, commanderSessionId = Some 100\<rparr>"
    by (simp add: pendingStore_def fullLicenceStore_def doc_get_def)
  have a: "atMostOnePending pendingStore"
    by (simp add: atMostOnePending_def pendingIncidentIds_def pendingStore_def)
  note t = requestIncidentCommand_pending
      [where s = pendingStore and iid = 101 and auth = user2 and sid = 102 and now = 6000
         and c = 1 and sessionId = "Some 102"
         and inc = "\<lparr>inc_customerId = 7, inc_status = Active, startTime = 2000,
                     endTime = None, commanderUid = Some 1, commanderSessionId = Some 100\<rparr>"
         and calls = "[Request (Some 101) (Some 102) user2 6000, Deny (Some 104) user1 7000,
                       Request (Some 101) (Some 102) user2 8000]"]
  from t p i have a1: "requestIncidentCommand (Some 101) (Some 102) user2 6000 pendingStore =
     (Inl AlreadyExists, pendingStore)"
    by (simp add: user2_def)
  from t a have a2: "atMostOnePending
     (fold handoffStep
        [Request (Some 101) (Some 102) user2 6000, Deny (Some 104) user1 7000,
         Request (Some 101) (Some 102) user2 8000] pendingStore)"
    by blast
  from a1 a2 show ?thesis by blast
qed

text \<open>
  Claim C7 as stated gives already-exists for every such call. The commander of the
  incident calling requestIncidentCommand while a request is pending gets
  failed-precondition: the test that the caller is not the commander comes before the
  query for a pending request.
\<close>

theorem request_by_commander_counterexample:
  "pendingRequests pendingStore 101 \<noteq> [] \<and>
   requestIncidentCommand (Some 101) (Some 100) user1 6000 pendingStore =
     (Inl FailedPrecondition, pendingStore)"
  by (simp add: requestIncidentCommand_def pendingRequests_def pendingStore_def
        fullLicenceStore_def user1_def doc_get_def)

section \<open>The single-incident gate of takeIncidentCommand\<close>











section \<open>The hourly sweep\<close>

lemma fold_clear:
  "fold applyWrite (map ClearCommander ks) s =
     s\<lparr>incidents := map (\<lambda>(k, i). if k \<in> set ks then (k, clearCommander i) else (k, i))
                        (incidents s)\<rparr>"
proof (induction ks arbitrary: s)
  case Nil
  then show ?case by (simp add: case_prod_unfold)
next
  case (Cons a ks)
  have "map (\<lambda>(k, i). if k \<in> set ks then (k, clearCommander i) else (k, i))
          (doc_update (incidents s) a clearCommander) =
        map (\<lambda>(k, i). if k \<in> set (a # ks) then (k, clearCommander i) else (k, i)) (incidents s)"
    by (auto simp: doc_update_def clearCommander_def)
  with Cons show ?case by simp
qed

lemma fold_delete:
  "fold applyWrite (map DeleteSession ks) s =
     s\<lparr>sessions := filter (\<lambda>(k, x). k \<notin> set ks) (sessions s)\<rparr>"
proof (induction ks arbitrary: s)
  case Nil
  then show ?case by (simp add: case_prod_unfold)
next
  case (Cons a ks)
  have "filter (\<lambda>(k, x). k \<notin> set ks) (doc_delete (sessions s) a) =
        filter (\<lambda>(k, x). k \<notin> set (a # ks)) (sessions s)"
    by (auto simp: doc_delete_def intro: filter_cong)
  with Cons show ?case by (simp add: deleteSession_def)
qed

lemma hourlyBatch_over:
  assumes "inFilterLimit < length (staleSessionIds now s)"
  shows "hourlyBatch now s = Inl PlainError"
  using assms by (auto simp: hourlyBatch_def lockedIncidents_def)

lemma cleanup_over:
  assumes "inFilterLimit < length (staleSessionIds now s)"
  shows "cleanupstalecommandsessions now s = s"
  by (simp add: cleanupstalecommandsessions_def hourlyBatch_over [OF assms])

lemma hourlyBatch_eq:
  assumes "length (staleSessionIds now s) \<le> inFilterLimit"
  shows "hourlyBatch now s =
           Inr (map ClearCommander (map fst (lockedMatches now s)) @
                map DeleteSession (sessionsToDelete (lockedMatches now s)))"
proof -
  have "lockedMatches now s = []" if "staleSessionIds now s = []"
    using that by (auto simp: lockedMatches_def filter_empty_conv split: option.splits)
  moreover have "sessionsToDelete (lockedMatches now s) = []" if "lockedMatches now s = []"
    using that by (simp add: sessionsToDelete_def)
  ultimately show ?thesis
    using assms
    by (auto simp: hourlyBatch_def lockedIncidents_def case_prod_unfold comp_def)
qed

lemma cleanup_eq:
  assumes "length (staleSessionIds now s) \<le> inFilterLimit"
  shows "cleanupstalecommandsessions now s =
     s\<lparr>incidents := map (\<lambda>(k, i). if k \<in> fst ` set (lockedMatches now s)
                                   then (k, clearCommander i) else (k, i)) (incidents s),
       sessions := filter (\<lambda>(k, x). k \<notin> set (sessionsToDelete (lockedMatches now s)))
                     (sessions s)\<rparr>"
  by (simp add: cleanupstalecommandsessions_def commitBatch_def hourlyBatch_eq [OF assms]
        fold_clear fold_delete del: map_map)

lemma key_mem_distinct:
  assumes "distinct (map fst xs)" and "(k, v) \<in> set xs" and "(k, v') \<in> set ys" and "set ys \<subseteq> set xs"
  shows "(k, v) \<in> set ys"
  using assms by (metis eq_key_imp_eq_value subsetD)

lemma cleanup_incidents:
  assumes "length (staleSessionIds now s) \<le> inFilterLimit"
      and "distinct (doc_ids (incidents s))"
  shows "incidents (cleanupstalecommandsessions now s) =
           map (\<lambda>(k, i). if (k, i) \<in> set (lockedMatches now s)
                          then (k, clearCommander i) else (k, i)) (incidents s)"
proof -
  have "k \<in> fst ` set (lockedMatches now s) \<longleftrightarrow> (k, i) \<in> set (lockedMatches now s)"
    if "(k, i) \<in> set (incidents s)" for k i
  proof
    assume "k \<in> fst ` set (lockedMatches now s)"
    then obtain v' where "(k, v') \<in> set (lockedMatches now s)" by auto
    moreover have "set (lockedMatches now s) \<subseteq> set (incidents s)"
      by (auto simp: lockedMatches_def)
    ultimately show "(k, i) \<in> set (lockedMatches now s)"
      using assms(2) that key_mem_distinct [of "incidents s" k i v' "lockedMatches now s"]
      by (simp add: doc_ids_def)
  next
    assume "(k, i) \<in> set (lockedMatches now s)"
    then show "k \<in> fst ` set (lockedMatches now s)" by force
  qed
  then show ?thesis
    by (auto simp: cleanup_eq [OF assms(1)])
qed

lemma set_map_filter_eq:
  "set (List.map_filter f xs) = {y. \<exists>x. x \<in> set xs \<and> f x = Some y}"
  by (induction xs) (auto split: option.splits)

lemma sessionsToDelete_set:
  "set (sessionsToDelete (lockedMatches now s)) =
     {sid. sid \<in> set (staleSessionIds now s) \<and>
           (\<exists>k i. (k, i) \<in> set (incidents s) \<and> inc_status i = Active \<and>
                  commanderSessionId i = Some sid)}"
proof -
  have "set (sessionsToDelete (lockedMatches now s)) =
          {sid. \<exists>k i. (k, i) \<in> set (lockedMatches now s) \<and> commanderSessionId i = Some sid}"
    by (auto simp: sessionsToDelete_def set_map_filter_eq)
  also have "\<dots> = {sid. sid \<in> set (staleSessionIds now s) \<and>
           (\<exists>k i. (k, i) \<in> set (incidents s) \<and> inc_status i = Active \<and>
                  commanderSessionId i = Some sid)}"
    by (fastforce simp: lockedMatches_def)
  finally show ?thesis .
qed

lemma sessionsToDelete_active:
  "set (sessionsToDelete (lockedMatches now s)) =
     set (staleSessionIds now s) \<inter> set (activeCommandSessionIds s)"
  by (auto simp: sessionsToDelete_set activeCommandSessionIds_def set_map_filter_eq
        split: if_splits)

lemma second_run_empty:
  assumes "length (staleSessionIds now s) \<le> inFilterLimit"
      and "set (staleSessionIds now' (cleanupstalecommandsessions now s)) \<subseteq>
             set (staleSessionIds now s)"
  shows "lockedMatches now' (cleanupstalecommandsessions now s) = []"
proof -
  let ?s' = "cleanupstalecommandsessions now s"
  have "\<not> (inc_status i' = Active \<and>
            (case commanderSessionId i' of None \<Rightarrow> False
             | Some sid \<Rightarrow> sid \<in> set (staleSessionIds now' ?s')))"
    if m: "(k, i') \<in> set (incidents ?s')" for k i'
  proof -
    from m obtain i where i: "(k, i) \<in> set (incidents s)"
      and c: "(k \<in> fst ` set (lockedMatches now s) \<and> i' = clearCommander i) \<or>
              (k \<notin> fst ` set (lockedMatches now s) \<and> i' = i)"
      by (auto simp: cleanup_eq [OF assms(1)] split: if_splits)
    from c show ?thesis
    proof
      assume "k \<in> fst ` set (lockedMatches now s) \<and> i' = clearCommander i"
      then show ?thesis by (simp add: clearCommander_def)
    next
      assume u: "k \<notin> fst ` set (lockedMatches now s) \<and> i' = i"
      with i have "(k, i) \<notin> set (lockedMatches now s)" by force
      with i u assms(2) show ?thesis
        by (auto simp: lockedMatches_def split: option.splits)
    qed
  qed
  then show ?thesis
    by (auto simp: lockedMatches_def [of now' ?s'] filter_empty_conv)
qed

lemma no_matches_no_writes:
  assumes "lockedMatches now s = []"
  shows "cleanupstalecommandsessions now s = s"
  using assms
  by (auto simp: cleanupstalecommandsessions_def hourlyBatch_def lockedIncidents_def
        commitBatch_def)

text \<open>
  A run whose query the store accepts (at most \<open>inFilterLimit\<close> stale sessions), in a
  store whose incident ids are pairwise different: the sweep clears commanderUid and
  commanderSessionId on exactly the Active incidents whose commanderSessionId is the id
  of a stale session, deletes exactly the sessions that are stale and recorded as
  commanding session of an Active incident, and writes nothing else. If every session
  that is stale at a second run was already stale at the first, the second run leaves
  the store as the first left it.
\<close>

lemma hourly_sweep_within_limit:
  assumes "length (staleSessionIds now s) \<le> inFilterLimit"
      and "distinct (doc_ids (incidents s))"
  shows "incidents (cleanupstalecommandsessions now s) =
           map (\<lambda>(k, i). if inc_status i = Active \<and>
                             (case commanderSessionId i of
                                None \<Rightarrow> False
                              | Some sid \<Rightarrow> sid \<in> set (staleSessionIds now s))
                          then (k, clearCommander i) else (k, i)) (incidents s) \<and>
         sessions (cleanupstalecommandsessions now s) =
           filter (\<lambda>(k, x). \<not> (k \<in> set (staleSessionIds now s) \<and>
                                 k \<in> set (activeCommandSessionIds s))) (sessions s) \<and>
         customers (cleanupstalecommandsessions now s) = customers s \<and>
         commandRequests (cleanupstalecommandsessions now s) = commandRequests s \<and>
         incidentLog (cleanupstalecommandsessions now s) = incidentLog s \<and>
         (set (staleSessionIds now' (cleanupstalecommandsessions now s))
            \<subseteq> set (staleSessionIds now s) \<longrightarrow>
          cleanupstalecommandsessions now' (cleanupstalecommandsessions now s) =
            cleanupstalecommandsessions now s)"
proof -
  have i: "incidents (cleanupstalecommandsessions now s) =
           map (\<lambda>(k, i). if inc_status i = Active \<and>
                             (case commanderSessionId i of
                                None \<Rightarrow> False
                              | Some sid \<Rightarrow> sid \<in> set (staleSessionIds now s))
                          then (k, clearCommander i) else (k, i)) (incidents s)"
    unfolding cleanup_incidents [OF assms]
    by (rule map_cong) (auto simp: lockedMatches_def split: option.splits)
  have x: "sessions (cleanupstalecommandsessions now s) =
           filter (\<lambda>(k, x). \<not> (k \<in> set (staleSessionIds now s) \<and>
                                 k \<in> set (activeCommandSessionIds s))) (sessions s)"
    by (simp add: cleanup_eq [OF assms(1)] sessionsToDelete_active)
  have r: "customers (cleanupstalecommandsessions now s) = customers s \<and>
         commandRequests (cleanupstalecommandsessions now s) = commandRequests s \<and>
         incidentLog (cleanupstalecommandsessions now s) = incidentLog s"
    by (simp add: cleanup_eq [OF assms(1)])
  have t: "cleanupstalecommandsessions now' (cleanupstalecommandsessions now s) =
            cleanupstalecommandsessions now s"
    if "set (staleSessionIds now' (cleanupstalecommandsessions now s))
            \<subseteq> set (staleSessionIds now s)"
    using second_run_empty [OF assms(1) that] by (rule no_matches_no_writes)
  from i x r t show ?thesis by blast
qed

text \<open>Scenario D of the specification, with two stale sessions: session 100 commands
  incident 101 and goes with the lock, session 102 is left alone.\<close>

lemma hourly_sweep_scenario:
  "incidents (cleanupstalecommandsessions 10801000 fullLicenceStore) =
     [(101, \<lparr>inc_customerId = 7, inc_status = Active, startTime = 2000, endTime = None,
             commanderUid = None, commanderSessionId = None\<rparr>),
      (103, \<lparr>inc_customerId = 7, inc_status = Active, startTime = 4000, endTime = None,
             commanderUid = None, commanderSessionId = None\<rparr>)] \<and>
   sessions (cleanupstalecommandsessions 10801000 fullLicenceStore) =
     [(102, \<lparr>sess_uid = 2, sess_customerId = 7, loginTime = 3000, lastActive = 3000\<rparr>)]"
proof -
  have d: "distinct (doc_ids (incidents fullLicenceStore))"
    by (simp add: fullLicenceStore_def doc_ids_def)
  have st: "staleSessionIds 10801000 fullLicenceStore = [100, 102]"
    by (simp add: staleSessionIds_def fullLicenceStore_def)
  then have l: "length (staleSessionIds 10801000 fullLicenceStore) \<le> inFilterLimit"
    by (simp add: inFilterLimit_def)
  have ac: "activeCommandSessionIds fullLicenceStore = [100]"
    by (simp add: activeCommandSessionIds_def fullLicenceStore_def)
  note t = hourly_sweep_within_limit [OF l d]
  from t st have i: "incidents (cleanupstalecommandsessions 10801000 fullLicenceStore) =
     [(101, \<lparr>inc_customerId = 7, inc_status = Active, startTime = 2000, endTime = None,
             commanderUid = None, commanderSessionId = None\<rparr>),
      (103, \<lparr>inc_customerId = 7, inc_status = Active, startTime = 4000, endTime = None,
             commanderUid = None, commanderSessionId = None\<rparr>)]"
    by (simp add: fullLicenceStore_def clearCommander_def)
  from t st ac have x: "sessions (cleanupstalecommandsessions 10801000 fullLicenceStore) =
     [(102, \<lparr>sess_uid = 2, sess_customerId = 7, loginTime = 3000, lastActive = 3000\<rparr>)]"
    by (simp add: fullLicenceStore_def)
  from i x show ?thesis by blast
qed

lemma logins:
  "n \<le> 40 \<Longrightarrow>
     fold (\<lambda>j s. snd (createSession user1 1000 s)) [0..<n] bigTenant =
       bigTenant\<lparr>sessions := map (\<lambda>k. (k, standby)) [200..<200 + n], nextId := 200 + n\<rparr>"
proof (induction n)
  case 0
  then show ?case by (simp add: bigTenant_def)
next
  case (Suc n)
  then have ih: "fold (\<lambda>j s. snd (createSession user1 1000 s)) [0..<n] bigTenant =
       bigTenant\<lparr>sessions := map (\<lambda>k. (k, standby)) [200..<200 + n], nextId := 200 + n\<rparr>"
    and n: "n < 40" by simp_all
  have c: "currentSessions
             (bigTenant\<lparr>sessions := map (\<lambda>k. (k, standby)) [200..<200 + n], nextId := 200 + n\<rparr>) 7
           = map (\<lambda>k. (k, standby)) [200..<200 + n]"
    by (simp add: currentSessions_def filter_map comp_def standby_def)
  have g: "doc_get (customers bigTenant) (auth_customerId user1) =
           Some \<lparr>maxTotalSessions = Some 40, maxCommandLicenses = Some 1\<rparr>"
    by (simp add: bigTenant_def user1_def doc_get_def)
  have c': "currentSessions
             (bigTenant\<lparr>sessions := map (\<lambda>k. (k, standby)) [200..<200 + n], nextId := 200 + n\<rparr>)
             (auth_customerId user1)
           = map (\<lambda>k. (k, standby)) [200..<200 + n]"
    using c by (simp add: user1_def)
  have sb: "\<lparr>sess_uid = auth_uid user1, sess_customerId = auth_customerId user1,
              loginTime = 1000, lastActive = 1000\<rparr> = standby"
    by (simp add: standby_def user1_def)
  have e: "[200..<201 + n] = [200..<200 + n] @ [200 + n]"
  proof -
    have "201 + n = Suc (200 + n)" by simp
    then show ?thesis by (simp only: upt_Suc) simp
  qed
  from n have step:
    "snd (createSession user1 1000
           (bigTenant\<lparr>sessions := map (\<lambda>k. (k, standby)) [200..<200 + n], nextId := 200 + n\<rparr>)) =
     bigTenant\<lparr>sessions := map (\<lambda>k. (k, standby)) [200..<200 + Suc n],
               nextId := 200 + Suc n\<rparr>"
    by (simp add: createSession_def g c' or_one_def addSession_def sb e)
  show ?case by (simp add: ih step)
qed

lemma manyStale_built:
  "snd (startNewIncident (Some 200) user1 2000
         (fold (\<lambda>j s. snd (createSession user1 1000 s)) [0..<31] bigTenant)) = manyStaleStore"
proof -
  have f: "fold (\<lambda>j s. snd (createSession user1 1000 s)) [0..<31] bigTenant =
             bigTenant\<lparr>sessions := map (\<lambda>k. (k, standby)) [200..<231], nextId := 231\<rparr>"
    using logins [of 31] by simp
  show ?thesis
    unfolding f
    by (simp add: startNewIncident_def manyStaleStore_def commandingIncidents_def
          activeUserIncidents_def bigTenant_def user1_def doc_get_def or_one_def)
qed

lemma manyStale_ids: "staleSessionIds 10000000 manyStaleStore = [200..<231]"
  by (simp add: staleSessionIds_def manyStaleStore_def filter_map comp_def standby_def)

lemma manyStale_incidents:
  "incidents manyStaleStore =
     [(231, \<lparr>inc_customerId = 7, inc_status = Active, startTime = 2000, endTime = None,
             commanderUid = Some 1, commanderSessionId = Some 200\<rparr>)]"
  by (simp add: manyStaleStore_def)

text \<open>
  Claim C9 at a store the code produces. User 1 logs in from 31 devices and starts
  incident 231 from the first one; nobody sends a heartbeat. At the next hourly run 31
  sessions are stale, and incident 231 is an Active incident whose commanderSessionId is
  one of them. The run puts all 31 ids in one \<^verbatim>\<open>in\<close> filter, the store refuses
  the query, the function throws and the store is as it was: the lock of incident 231 is
  not released and session 200 is not deleted.
\<close>

theorem hourly_sweep_over_limit:
  "snd (startNewIncident (Some 200) user1 2000
         (fold (\<lambda>j s. snd (createSession user1 1000 s)) [0..<31] bigTenant)) = manyStaleStore \<and>
   length (staleSessionIds 10000000 manyStaleStore) = 31 \<and>
   lockedMatches 10000000 manyStaleStore =
     [(231, \<lparr>inc_customerId = 7, inc_status = Active, startTime = 2000, endTime = None,
             commanderUid = Some 1, commanderSessionId = Some 200\<rparr>)] \<and>
   hourlyBatch 10000000 manyStaleStore = Inl PlainError \<and>
   cleanupstalecommandsessions 10000000 manyStaleStore = manyStaleStore"
proof -
  have l: "length (staleSessionIds 10000000 manyStaleStore) = 31"
    by (simp add: manyStale_ids)
  have m: "lockedMatches 10000000 manyStaleStore =
     [(231, \<lparr>inc_customerId = 7, inc_status = Active, startTime = 2000, endTime = None,
             commanderUid = Some 1, commanderSessionId = Some 200\<rparr>)]"
    by (simp add: lockedMatches_def manyStale_ids manyStale_incidents)
  from l have o: "inFilterLimit < length (staleSessionIds 10000000 manyStaleStore)"
    by (simp add: inFilterLimit_def)
  from l m hourlyBatch_over [OF o] cleanup_over [OF o] manyStale_built show ?thesis by simp
qed

section \<open>Privileged re-entry of createSession\<close>










text \<open>When the caller commands two Active incidents that both record a session, the
  session of the incident the query returns is deleted and the other one stays.\<close>

lemma createSession_other_session_stays:
  "createSession user1 5000 twoSessionStore =
     (Inr (SessionId 104),
      twoSessionStore
        \<lparr>sessions :=
           [(102, \<lparr>sess_uid = 1, sess_customerId = 7, loginTime = 3000, lastActive = 3000\<rparr>),
            (104, \<lparr>sess_uid = 1, sess_customerId = 7, loginTime = 5000, lastActive = 5000\<rparr>)],
         nextId := 105\<rparr>)"
  by (simp add: createSession_def twoSessionStore_def fullLicenceStore_def user1_def doc_get_def
        or_one_def currentSessions_def oldSessionId_def commanderQuery_def addSession_def
        deleteSession_def doc_delete_def)

section \<open>Consistency of the commander fields\<close>

lemma commandLive_incidents: "commandLive (s\<lparr>incidents := xs\<rparr>) i = commandLive s i"
  by (simp add: commandLive_def cong: option.case_cong)

lemma commandLive_grant:
  "doc_get (sessions s) sid = Some x \<Longrightarrow> sess_uid x = u \<Longrightarrow> commandLive s (grantCommand u sid v)"
  by (simp add: commandLive_def grantCommand_def)

lemma commandLive_close: "commandLive s (closeFields now v)"
  by (simp add: commandLive_def closeFields_def)

lemma consistent_update:
  assumes "commandConsistent s" and "\<And>v. commandLive s (f v)"
  shows "commandConsistent (s\<lparr>incidents := doc_update (incidents s) k f\<rparr>)"
  using assms
  by (auto simp: commandConsistent_def list_all_iff doc_update_def commandLive_incidents
        split: if_splits)

lemma createSession_incidents: "incidents (snd (createSession auth now s)) = incidents s"
  by (auto simp: createSession_def addSession_def deleteSession_def split: option.splits)

lemma list_all_update:
  assumes "list_all P c" and "\<And>v. (k, v) \<in> set c \<Longrightarrow> P (k, f v)"
  shows "list_all P (doc_update c k f)"
  using assms by (auto simp: list_all_iff doc_update_def)

lemma doc_get_mem:
  "distinct (doc_ids c) \<Longrightarrow> (k, v) \<in> set c \<Longrightarrow> doc_get c k = Some v"
  by (simp add: doc_get_def doc_ids_def)

lemma take_bothOrNone:
  "bothOrNone s \<Longrightarrow> bothOrNone (snd (takeIncidentCommand incidentId sessionId auth s))"
  by (auto simp: bothOrNone_def takeIncidentCommand_def grantCommand_def
        intro!: list_all_update split: option.splits)

lemma start_bothOrNone:
  "bothOrNone s \<Longrightarrow> bothOrNone (snd (startNewIncident sessionId auth now s))"
  by (auto simp: bothOrNone_def startNewIncident_def split: option.splits)

lemma close_bothOrNone:
  "bothOrNone s \<Longrightarrow> bothOrNone (snd (closeIncident incidentId auth now s))"
  by (auto simp: bothOrNone_def closeIncident_def closeFields_def
        intro!: list_all_update split: option.splits)

lemma reestablish_bothOrNone:
  assumes "distinct (doc_ids (incidents s))" and "bothOrNone s"
  shows "bothOrNone (snd (reestablishCommand incidentId sessionId auth now s))"
proof -
  have "list_all (\<lambda>(k, i). (commanderUid i = None) = (commanderSessionId i = None))
          (doc_update (incidents s) iid (\<lambda>i. i\<lparr>commanderSessionId := Some sid\<rparr>))"
    if "doc_get (incidents s) iid = Some inc" "commanderUid inc = Some (auth_uid auth)"
    for iid sid inc
  proof (rule list_all_update)
    show "list_all (\<lambda>(k, i). (commanderUid i = None) = (commanderSessionId i = None)) (incidents s)"
      using assms(2) by (simp add: bothOrNone_def)
  next
    fix v assume "(iid, v) \<in> set (incidents s)"
    with assms(1) that have "v = inc" by (simp add: doc_get_mem)
    with that show "case (iid, v\<lparr>commanderSessionId := Some sid\<rparr>) of
        (k, i) \<Rightarrow> (commanderUid i = None) = (commanderSessionId i = None)"
      by simp
  qed
  with assms(2) show ?thesis
    by (auto simp: bothOrNone_def reestablishCommand_def logIncidentAction_def
          split: option.splits)
qed

lemma approve_bothOrNone:
  "bothOrNone s \<Longrightarrow> bothOrNone (snd (approveCommandRequest requestId auth now s))"
  by (auto simp: bothOrNone_def approveCommandRequest_def approveWrites_def grantCommand_def
        logIncidentAction_def intro!: list_all_update split: option.splits)

lemma hourly_bothOrNone:
  assumes "bothOrNone s"
  shows "bothOrNone (cleanupstalecommandsessions now s)"
proof (cases "inFilterLimit < length (staleSessionIds now s)")
  case True
  with assms show ?thesis by (simp add: cleanup_over)
next
  case False
  then have l: "length (staleSessionIds now s) \<le> inFilterLimit" by simp
  from assms show ?thesis
    by (auto simp: bothOrNone_def cleanup_eq [OF l] list_all_iff clearCommander_def
          split: if_splits)
qed

lemma daily_incidents: "incidents (cleanupoldsessions now s) = incidents s"
proof -
  have "map (\<lambda>(k, x). DeleteSession k) (oldSessions now s) =
        map DeleteSession (map fst (oldSessions now s))"
    by (simp add: case_prod_unfold comp_def)
  then show ?thesis
    by (simp add: cleanupoldsessions_def commitBatch_def fold_delete del: map_map)
qed

lemma take_cases:
  "snd (takeIncidentCommand incidentId sessionId auth s) = s \<or>
   (\<exists>iid sid x. doc_get (sessions s) sid = Some x \<and> sess_uid x = auth_uid auth \<and>
      snd (takeIncidentCommand incidentId sessionId auth s) =
        s\<lparr>incidents := doc_update (incidents s) iid (grantCommand (auth_uid auth) sid)\<rparr>)"
  by (auto simp: takeIncidentCommand_def split: option.splits)

lemma close_cases:
  "snd (closeIncident incidentId auth now s) = s \<or>
   (\<exists>iid. snd (closeIncident incidentId auth now s) =
            s\<lparr>incidents := doc_update (incidents s) iid (closeFields now)\<rparr>)"
  by (auto simp: closeIncident_def split: option.splits)

lemma take_consistent:
  assumes "commandConsistent s"
  shows "commandConsistent (snd (takeIncidentCommand incidentId sessionId auth s))"
proof -
  from take_cases [of incidentId sessionId auth s] show ?thesis
  proof
    assume "snd (takeIncidentCommand incidentId sessionId auth s) = s"
    with assms show ?thesis by simp
  next
    assume "\<exists>iid sid x. doc_get (sessions s) sid = Some x \<and> sess_uid x = auth_uid auth \<and>
      snd (takeIncidentCommand incidentId sessionId auth s) =
        s\<lparr>incidents := doc_update (incidents s) iid (grantCommand (auth_uid auth) sid)\<rparr>"
    then obtain iid sid x where x: "doc_get (sessions s) sid = Some x" "sess_uid x = auth_uid auth"
      and e: "snd (takeIncidentCommand incidentId sessionId auth s) =
        s\<lparr>incidents := doc_update (incidents s) iid (grantCommand (auth_uid auth) sid)\<rparr>"
      by blast
    from assms x show ?thesis
      unfolding e by (intro consistent_update) (simp_all add: commandLive_grant)
  qed
qed

lemma close_consistent:
  assumes "commandConsistent s"
  shows "commandConsistent (snd (closeIncident incidentId auth now s))"
proof -
  from close_cases [of incidentId auth now s] show ?thesis
  proof
    assume "snd (closeIncident incidentId auth now s) = s"
    with assms show ?thesis by simp
  next
    assume "\<exists>iid. snd (closeIncident incidentId auth now s) =
            s\<lparr>incidents := doc_update (incidents s) iid (closeFields now)\<rparr>"
    then obtain iid where e: "snd (closeIncident incidentId auth now s) =
            s\<lparr>incidents := doc_update (incidents s) iid (closeFields now)\<rparr>"
      by blast
    from assms show ?thesis
      unfolding e by (intro consistent_update) (simp_all add: commandLive_close)
  qed
qed

text \<open>
  Claim C5, as amended. In a store whose incident ids are pairwise different,
  createSession, takeIncidentCommand, startNewIncident, closeIncident,
  reestablishCommand, approveCommandRequest and the two sweeps preserve that
  commanderUid and commanderSessionId of every incident are both empty or both set.
  That a recorded commanding session exists and belongs to the recorded commander is
  preserved by takeIncidentCommand and by closeIncident; it is not preserved by
  createSession.
\<close>

theorem operations_keep_bothOrNone:
  assumes "distinct (doc_ids (incidents s))" and "bothOrNone s"
  shows "bothOrNone (snd (createSession auth now s)) \<and>
         bothOrNone (snd (takeIncidentCommand incidentId sessionId auth s)) \<and>
         bothOrNone (snd (startNewIncident sessionId auth now s)) \<and>
         bothOrNone (snd (closeIncident incidentId auth now s)) \<and>
         bothOrNone (snd (reestablishCommand incidentId sessionId auth now s)) \<and>
         bothOrNone (snd (approveCommandRequest requestId auth now s)) \<and>
         bothOrNone (cleanupstalecommandsessions now s) \<and>
         bothOrNone (cleanupoldsessions now s) \<and>
         (commandConsistent s \<longrightarrow>
            commandConsistent (snd (takeIncidentCommand incidentId sessionId auth s)) \<and>
            commandConsistent (snd (closeIncident incidentId auth now s)))"
proof -
  from assms(2) have a: "bothOrNone (snd (createSession auth now s))"
    by (simp add: bothOrNone_def createSession_incidents)
  from assms(2) have b: "bothOrNone (cleanupoldsessions now s)"
    by (simp add: bothOrNone_def daily_incidents)
  note c = take_bothOrNone [OF assms(2), of incidentId sessionId auth]
    start_bothOrNone [OF assms(2), of sessionId auth now]
    close_bothOrNone [OF assms(2), of incidentId auth now]
    reestablish_bothOrNone [OF assms, of incidentId sessionId auth now]
    approve_bothOrNone [OF assms(2), of requestId auth now]
    hourly_bothOrNone [OF assms(2), of now]
  have d: "commandConsistent s \<longrightarrow>
            commandConsistent (snd (takeIncidentCommand incidentId sessionId auth s)) \<and>
            commandConsistent (snd (closeIncident incidentId auth now s))"
    using take_consistent close_consistent by blast
  from a b c d show ?thesis by blast
qed

theorem operations_keep_bothOrNone_witness:
  "bothOrNone (snd (createSession user1 3000 scenarioB)) \<and>
   bothOrNone (snd (takeIncidentCommand (Some 101) (Some 100) user1 scenarioB)) \<and>
   bothOrNone (snd (startNewIncident (Some 100) user1 3000 scenarioB)) \<and>
   bothOrNone (snd (closeIncident (Some 101) user1 3000 scenarioB)) \<and>
   bothOrNone (snd (reestablishCommand (Some 101) (Some 100) user1 3000 scenarioB)) \<and>
   bothOrNone (snd (approveCommandRequest (Some 104) user1 3000 scenarioB)) \<and>
   bothOrNone (cleanupstalecommandsessions 3000 scenarioB) \<and>
   bothOrNone (cleanupoldsessions 3000 scenarioB) \<and>
   commandConsistent (snd (takeIncidentCommand (Some 101) (Some 100) user1 scenarioB)) \<and>
   commandConsistent (snd (closeIncident (Some 101) user1 3000 scenarioB))"
proof -
  have d: "distinct (doc_ids (incidents scenarioB))"
    by (simp add: scenarioB_def doc_ids_def)
  have b: "bothOrNone scenarioB"
    by (simp add: bothOrNone_def scenarioB_def)
  have c: "commandConsistent scenarioB"
    by (simp add: commandConsistent_def commandLive_def scenarioB_def doc_get_def)
  from operations_keep_bothOrNone
    [OF d b, where auth = user1 and now = 3000 and incidentId = "Some 101"
       and sessionId = "Some 100" and requestId = "Some 104"] c
  show ?thesis by blast
qed

text \<open>
  Claim C5 as stated has every operation preserve the whole invariant. In Scenario B the
  privileged re-entry of createSession deletes session 100 and leaves incident 101
  recording it as commanding session.
\<close>

theorem createSession_dangling_counterexample:
  "commandConsistent scenarioB \<and>
   \<not> commandConsistent (snd (createSession user1 3000 scenarioB))"
  by (simp add: commandConsistent_def commandLive_def createSession_def scenarioB_def
        user1_def doc_get_def or_one_def currentSessions_def oldSessionId_def
        commanderQuery_def addSession_def deleteSession_def doc_delete_def)

section \<open>The session quota\<close>

lemma currentSessions_delete:
  "currentSessions (deleteSession k s) c = doc_delete (currentSessions s c) k"
  by (auto simp: currentSessions_def deleteSession_def doc_delete_def intro: filter_cong)

lemma length_doc_delete: "length (doc_delete c k) \<le> length c"
  by (simp add: doc_delete_def)

lemma length_doc_delete_less:
  "k \<in> set (doc_ids c) \<Longrightarrow> length (doc_delete c k) < length c"
  unfolding doc_delete_def doc_ids_def
  by (rule length_filter_less [where x = "(k, SOME v. (k, v) \<in> set c)"])
     (auto intro: someI)

lemma staleStep_id:
  "foldl (staleStep cs th) acc xs = Some (k, t) \<Longrightarrow>
     acc = Some (k, t) \<or> k \<in> set (doc_ids xs)"
proof (induction xs arbitrary: acc)
  case Nil
  then show ?case by simp
next
  case (Cons a xs)
  from Cons.prems have "foldl (staleStep cs th) (staleStep cs th acc a) xs = Some (k, t)"
    by simp
  from Cons.IH [OF this] show ?case
    by (auto simp: staleStep_def doc_ids_def split: prod.splits if_splits option.splits)
qed

lemma oldestStale_current:
  "oldestStaleSession auth now s = Some (k, t) \<Longrightarrow>
     k \<in> set (doc_ids (currentSessions s (auth_customerId auth)))"
  using staleStep_id [of _ _ None] by (fastforce simp: oldestStaleSession_def)

lemma addSession_current:
  "currentSessions (snd (addSession auth now s)) c =
     currentSessions s c @
       (if auth_customerId auth = c
        then [(nextId s, \<lparr>sess_uid = auth_uid auth, sess_customerId = auth_customerId auth,
                           loginTime = now, lastActive = now\<rparr>)]
        else [])"
  by (simp add: addSession_def currentSessions_def)

lemma addSession_customers: "customers (snd (addSession auth now s)) = customers s"
  by (simp add: addSession_def)

lemma createSession_customers: "customers (snd (createSession auth now s)) = customers s"
  by (auto simp: createSession_def addSession_def deleteSession_def split: option.splits)

text \<open>createSession keeps every tenant within its quota when the privileged re-entry,
  if it applies, finds the recorded commanding session among the sessions of the tenant;
  endSession always does.\<close>

lemma createSession_keeps_quota:
  assumes "withinQuota s c"
      and "case oldSessionId auth s of
             None \<Rightarrow> True
           | Some old \<Rightarrow> old \<in> set (doc_ids (currentSessions s (auth_customerId auth)))"
  shows "withinQuota (snd (createSession auth now s)) c"
proof (cases "doc_get (customers s) c")
  case None
  then show ?thesis by (simp add: withinQuota_def createSession_customers)
next
  case (Some cust)
  with assms(1) have q: "length (currentSessions s c) \<le> or_one (maxTotalSessions cust)"
    by (simp add: withinQuota_def)
  have del: "length (currentSessions (snd (addSession auth now (deleteSession k s))) c)
               \<le> length (currentSessions s c)"
    if "k \<in> set (doc_ids (currentSessions s (auth_customerId auth)))" for k
  proof (cases "auth_customerId auth = c")
    case True
    with that length_doc_delete_less [of k "currentSessions s c"] show ?thesis
      by (simp add: addSession_current currentSessions_delete)
  next
    case False
    with length_doc_delete [of "currentSessions s c" k] show ?thesis
      by (simp add: addSession_current currentSessions_delete)
  qed
  have "length (currentSessions (snd (createSession auth now s)) c)
          \<le> or_one (maxTotalSessions cust)"
  proof (cases "doc_get (customers s) (auth_customerId auth)")
    case None
    with q show ?thesis by (simp add: createSession_def)
  next
    case cu: (Some cust')
    show ?thesis
    proof (cases "length (currentSessions s (auth_customerId auth)) < or_one (maxTotalSessions cust')")
      case True
      with cu Some q show ?thesis
        by (auto simp: createSession_def addSession_current)
    next
      case full: False
      show ?thesis
      proof (cases "oldSessionId auth s")
        case (Some old)
        with assms(2) have "old \<in> set (doc_ids (currentSessions s (auth_customerId auth)))"
          by simp
        from del [OF this] cu full Some q show ?thesis
          by (simp add: createSession_def)
      next
        case None
        show ?thesis
        proof (cases "oldestStaleSession auth now s")
          case n: None
          with cu full None q show ?thesis by (simp add: createSession_def)
        next
          case (Some kt)
          obtain k t where kt: "kt = (k, t)" by (cases kt)
          from Some kt have "k \<in> set (doc_ids (currentSessions s (auth_customerId auth)))"
            by (simp add: oldestStale_current)
          from del [OF this] cu full None Some kt q show ?thesis
            by (simp add: createSession_def)
        qed
      qed
    qed
  qed
  with Some show ?thesis by (simp add: withinQuota_def createSession_customers)
qed

lemma endSession_keeps_quota:
  assumes "withinQuota s c"
  shows "withinQuota (snd (endSession sessionId auth s)) c"
proof -
  have "snd (endSession sessionId auth s) = s \<or>
        (\<exists>k. snd (endSession sessionId auth s) = deleteSession k s)"
    by (auto simp: endSession_def split: option.splits)
  then show ?thesis
  proof
    assume "snd (endSession sessionId auth s) = s"
    with assms show ?thesis by simp
  next
    assume "\<exists>k. snd (endSession sessionId auth s) = deleteSession k s"
    then obtain k where k: "snd (endSession sessionId auth s) = deleteSession k s" by blast
    have "customers (deleteSession k s) = customers s" by (simp add: deleteSession_def)
    with assms length_doc_delete [of "currentSessions s c" k] show ?thesis
      by (auto simp: withinQuota_def k currentSessions_delete split: option.splits)
  qed
qed

text \<open>
  Claim C1 at a store the code produces. With one session slot, user 1 logs in, starts
  an incident and logs in from a second device: the privileged re-entry deletes session
  100 and the count stays at 1. Incident 101 still records session 100, so at the next
  createSession of user 1 the privileged re-entry deletes nothing and adds a session:
  the tenant holds two sessions against a quota of one.
\<close>

theorem createSession_reentry_exceeds_quota:
  "snd (startNewIncident (Some 100) user1 2000 (snd (createSession user1 1000 quotaOneStore)))
     = scenarioB \<and>
   snd (createSession user1 3000 scenarioB) = danglingStore \<and>
   withinQuota danglingStore 7 \<and>
   fst (createSession user1 4000 danglingStore) = Inr (SessionId 103) \<and>
   length (currentSessions (snd (createSession user1 4000 danglingStore)) 7) = 2 \<and>
   \<not> withinQuota (snd (createSession user1 4000 danglingStore)) 7"
  by (simp add: createSession_def startNewIncident_def quotaOneStore_def scenarioB_def
        danglingStore_def withinQuota_def user1_def doc_get_def or_one_def currentSessions_def
        oldSessionId_def commanderQuery_def addSession_def deleteSession_def doc_delete_def
        commandingIncidents_def activeUserIncidents_def)

end
